theory Spec2Isabelle
  imports Complex_Main "HOL-Library.AList"
begin

section \<open>Numbers, truthiness and strings\<close>

text \<open>
  The engine computes with JavaScript numbers. They are modelled as exact reals: rounding,
  overflow and NaN inputs are outside the model. The one place where the source can divide by
  an unchecked zero (the per-item volume in \<open>calculateStats\<close>) is modelled with an explicit
  non-finite result, see \<open>js_div\<close> below.

  \<open>or_num v d\<close> is the expression \<^verbatim>\<open>v || d\<close> for an optional number \<open>v\<close>: the default
  is taken when the value is missing or is the falsy number 0.
\<close>

definition or_num :: "real option \<Rightarrow> real \<Rightarrow> real" where
  "or_num v d = (case v of None \<Rightarrow> d | Some x \<Rightarrow> (if x = 0 then d else x))"

text \<open>\<^verbatim>\<open>s || d\<close> for a string: the empty string is falsy.\<close>

definition or_str :: "string \<Rightarrow> string \<Rightarrow> string" where
  "or_str s d = (if s = [] then d else s)"

text \<open>
  A quotient of two numbers that the source does not guard. JavaScript yields Infinity,
  -Infinity or NaN when the divisor is 0; all three are collapsed into \<open>None\<close>. A sum with a
  non-finite summand is non-finite again, so \<open>None\<close> is absorbing for \<open>js_add\<close>.
\<close>

definition js_div :: "real \<Rightarrow> real \<Rightarrow> real option" where
  "js_div a b = (if b = 0 then None else Some (a / b))"

definition js_add :: "real option \<Rightarrow> real option \<Rightarrow> real option" where
  "js_add a b = (case a of None \<Rightarrow> None | Some x \<Rightarrow> (case b of None \<Rightarrow> None | Some y \<Rightarrow> Some (x + y)))"

text \<open>
  Strings are lists of 8-bit characters. \<open>toLowerCase\<close> and \<open>trim\<close> are modelled on ASCII:
  the letters A to Z are folded, and the white space removed is tab, line feed, vertical tab,
  form feed, carriage return and space.
\<close>

definition lower_char :: "char \<Rightarrow> char" where
  "lower_char c = (let n = (of_char c :: nat) in if 65 \<le> n \<and> n \<le> 90 then char_of (n + 32) else c)"

definition toLowerCase :: "string \<Rightarrow> string" where
  "toLowerCase s = map lower_char s"

definition is_space :: "char \<Rightarrow> bool" where
  "is_space c = (let n = (of_char c :: nat) in (9 \<le> n \<and> n \<le> 13) \<or> n = 32)"

definition trim :: "string \<Rightarrow> string" where
  "trim s = rev (dropWhile is_space (rev (dropWhile is_space s)))"

fun starts_with :: "string \<Rightarrow> string \<Rightarrow> bool" where
  "starts_with s [] = True"
| "starts_with [] (p # ps) = False"
| "starts_with (c # cs) (p # ps) = (c = p \<and> starts_with cs ps)"

text \<open>\<open>str_includes s sub\<close> is \<^verbatim>\<open>s.includes(sub)\<close>: \<open>sub\<close> occurs somewhere in \<open>s\<close>.\<close>

fun str_includes :: "string \<Rightarrow> string \<Rightarrow> bool" where
  "str_includes [] sub = (sub = [])"
| "str_includes (c # cs) sub = (starts_with (c # cs) sub \<or> str_includes cs sub)"

section \<open>Data model (types.ts)\<close>

record FormulaItem =
  item_uuid :: string
  item_ingredientId :: "string option"
  item_name :: string
  item_cas :: string
  item_family :: string
  item_note :: string
  item_odorProfile :: string
  item_weight :: real
  item_dilution :: real
  item_solvent :: string
  item_costPerKg :: real
  item_supplier :: string
  item_customDensity :: "real option"
  item_accordId :: "string option"

record Ingredient =
  ing_id :: string
  ing_name :: string
  ing_cas :: string
  ing_family :: string
  ing_note :: string
  ing_odorProfile :: string
  ing_density :: real
  ing_dilution :: real
  ing_solvent :: string
  ing_costPerKg :: real

record IFRAEntry =
  ifra_name :: string
  ifra_type :: string
  ifra_limits :: "(string \<rightharpoonup> real) option"

type_synonym IFRAData = "string \<rightharpoonup> IFRAEntry"

record NCSConstituent =
  nc_name :: string
  nc_cas :: string
  nc_percent :: real

record NCS =
  ncs_id :: string
  ncs_constituents :: "NCSConstituent list"

record ComplianceResult =
  cr_cas :: string
  cr_name :: string
  cr_totalMass :: real
  cr_concentration :: real
  cr_limit :: real
  cr_isCompliant :: bool
  cr_sources :: "string list"
  cr_reason :: "string option"

record SolventBreakdownEntry =
  sb_name :: string
  sb_mass :: real
  sb_volume :: real
  sb_massPct :: real
  sb_volPct :: real

datatype Rating = Safe | Low | Flammable | High

record FlashPointEstimate =
  celsius :: "real option"
  rating :: Rating
  warning :: string

record SolventAnalysis =
  breakdown :: "SolventBreakdownEntry list"
  totalSolventMass :: real
  totalSolventVolume :: real
  ethanolVvPct :: real
  flashPointEstimate :: FlashPointEstimate

record FormulationStats =
  totalWeight :: real
  totalVolume :: "real option"
  totalCost :: real
  ethanolMass :: real
  concentrateMass :: real
  solventAnalysis :: SolventAnalysis

text \<open>\<open>find_first P xs\<close> is \<^verbatim>\<open>xs.find(P)\<close>: the first element that satisfies \<open>P\<close>.\<close>

fun find_first :: "('a \<Rightarrow> bool) \<Rightarrow> 'a list \<Rightarrow> 'a option" where
  "find_first P [] = None"
| "find_first P (x # xs) = (if P x then Some x else find_first P xs)"

section \<open>Flash-point estimator\<close>

text \<open>The control points \<open>[ethanol % v/v, flash point in degrees Celsius]\<close>.\<close>

definition points :: "(real \<times> real) list" where
  "points = [(0, 100), (5, 62), (10, 49), (20, 36), (30, 29), (40, 26), (50, 24),
             (60, 22), (70, 21), (80, 20), (90, 17), (100, 13)]"

text \<open>The value assigned to \<open>estimatedC\<close> inside the loop, for the segment from \<open>p1\<close> to \<open>p2\<close>.\<close>

definition segment_value :: "real \<times> real \<Rightarrow> real \<times> real \<Rightarrow> real \<Rightarrow> real" where
  "segment_value p1 p2 x =
     (let ratio = (x - fst p1) / (fst p2 - fst p1) in snd p1 + ratio * (snd p2 - snd p1))"

text \<open>
  The loop over \<open>i = 0 .. points.length - 2\<close>: the first segment that brackets the percentage
  sets \<open>estimatedC\<close> and breaks; when no segment does, \<open>estimatedC\<close> keeps its initial value.
\<close>

fun interpolate :: "real \<Rightarrow> (real \<times> real) list \<Rightarrow> real \<Rightarrow> real" where
  "interpolate estimatedC (p1 # p2 # ps) x =
     (if x \<ge> fst p1 \<and> x \<le> fst p2 then segment_value p1 p2 x
      else interpolate estimatedC (p2 # ps) x)"
| "interpolate estimatedC [p] x = estimatedC"
| "interpolate estimatedC [] x = estimatedC"

text \<open>The en dash in the warning for the rating \<open>Flammable\<close> is written as its three UTF-8 bytes.\<close>

definition flammable_warning :: string where
  "flammable_warning = ''Flammable '' @ [char_of (0xE2 :: nat), char_of (0x80 :: nat), char_of (0x93 :: nat)]
     @ '' review shipping/storage''"

definition estimateFlashPoint :: "real \<Rightarrow> FlashPointEstimate" where
  "estimateFlashPoint pct =
     (if pct \<le> 0
      then \<lparr>celsius = None, rating = Safe, warning = ''Non-flammable solvent basis''\<rparr>
      else
        let estimatedC = interpolate 13 points pct in
        if estimatedC < 23
        then \<lparr>celsius = Some estimatedC, rating = High,
              warning = ''High flammability / shipping constraints likely''\<rparr>
        else if estimatedC < 60
        then \<lparr>celsius = Some estimatedC, rating = Flammable, warning = flammable_warning\<rparr>
        else \<lparr>celsius = Some estimatedC, rating = Low,
              warning = ''Lower flammability (still validate)''\<rparr>)"

text \<open>
  A well-formed reference curve, for the proofs: the percentages increase strictly, the
  temperatures never increase, and the value \<open>d\<close> used beyond the last point is not above the
  last temperature.
\<close>

fun curve_ok :: "real \<Rightarrow> (real \<times> real) list \<Rightarrow> bool" where
  "curve_ok d (p1 # p2 # ps) = (fst p1 < fst p2 \<and> snd p2 \<le> snd p1 \<and> curve_ok d (p2 # ps))"
| "curve_ok d [p] = (d \<le> snd p)"
| "curve_ok d [] = True"

section \<open>Solvent and carrier analysis\<close>

text \<open>
  \<open>SOLVENT_DENSITIES\<close> is a plain object used as a table and \<open>solventMap\<close> is a \<open>Map\<close>; both
  are association lists here, in insertion order. \<open>AList.update\<close> overwrites the value of a
  key that is present in place and appends a new key at the end, as \<open>Map.set\<close> does. Keys that
  name members of \<open>Object.prototype\<close> are outside the model.
\<close>

definition SOLVENT_DENSITIES :: "(string \<times> real) list" where
  "SOLVENT_DENSITIES =
     [(''Ethanol'', 0.789), (''DPG'', 1.02), (''IPM'', 0.85), (''TEC'', 1.12), (''BB'', 1.12),
      (''Benzyl Benzoate'', 1.12), (''Water'', 1.0), (''Water (Aqua)'', 1.0)]"

record solvent_acc =
  acc_solventMap :: "(string \<times> real \<times> real) list"
  acc_totalSolventMass :: real
  acc_totalSolventVolume :: real

text \<open>Case 2 of the loop body: the name under which a direct solvent line is booked.\<close>

definition direct_solvent_name :: "string \<Rightarrow> string" where
  "direct_solvent_name nm =
     (let lowerName = toLowerCase nm in
      if str_includes lowerName ''ethanol'' \<or> str_includes lowerName ''alcohol'' then ''Ethanol''
      else if str_includes lowerName ''dpg'' then ''DPG''
      else if str_includes lowerName ''ipm'' then ''IPM''
      else if str_includes lowerName ''tec'' then ''TEC''
      else if str_includes lowerName ''water'' \<or> str_includes lowerName ''aqua'' then ''Water''
      else if str_includes lowerName ''bb'' \<or> str_includes lowerName ''benzyl benzoate'' then ''BB''
      else nm)"

text \<open>
  The first half of the loop body: the pair \<open>(solventName, addedMass)\<close> an item arrives with
  at the accumulation step. Both start as \<open>('None', 0)\<close>.
\<close>

definition solvent_contribution :: "FormulaItem \<Rightarrow> string \<times> real" where
  "solvent_contribution item =
     (let dilution = or_num (Some (item_dilution item)) 1 in
      if dilution < 1 then
        (let solventName = or_str (item_solvent item) ''Ethanol'' in
         (if solventName = ''None'' then ''Ethanol'' else solventName,
          item_weight item * (1 - dilution)))
      else if (item_family item = ''Solvent'' \<or> item_note item = ''Solvent'') \<and> dilution = 1 then
        (direct_solvent_name (item_name item), item_weight item)
      else (''None'', 0))"

definition solvent_step :: "solvent_acc \<Rightarrow> FormulaItem \<Rightarrow> solvent_acc" where
  "solvent_step acc item =
     (let (solventName, addedMass) = solvent_contribution item in
      if addedMass > 0 \<and> solventName \<noteq> ''None'' then
        (let density = or_num (map_of SOLVENT_DENSITIES solventName) 1.0;
             addedVol = addedMass / density;
             current = (case map_of (acc_solventMap acc) solventName of
                          None \<Rightarrow> (0, 0) | Some d \<Rightarrow> d)
         in \<lparr>acc_solventMap =
                AList.update solventName (fst current + addedMass, snd current + addedVol)
                  (acc_solventMap acc),
              acc_totalSolventMass = acc_totalSolventMass acc + addedMass,
              acc_totalSolventVolume = acc_totalSolventVolume acc + addedVol\<rparr>)
      else acc)"

definition solvent_init :: solvent_acc where
  "solvent_init = \<lparr>acc_solventMap = [], acc_totalSolventMass = 0, acc_totalSolventVolume = 0\<rparr>"

text \<open>The mass booked under a solvent name so far; 0 for a name without an entry.\<close>

definition solvent_mass :: "(string \<times> real \<times> real) list \<Rightarrow> string \<Rightarrow> real" where
  "solvent_mass tab n = (case map_of tab n of None \<Rightarrow> 0 | Some d \<Rightarrow> fst d)"

definition solvent_entry :: "real \<Rightarrow> real \<Rightarrow> string \<times> real \<times> real \<Rightarrow> SolventBreakdownEntry" where
  "solvent_entry tMass tVol e =
     \<lparr>sb_name = fst e, sb_mass = fst (snd e), sb_volume = snd (snd e),
      sb_massPct = (if tMass > 0 then (fst (snd e) / tMass) * 100 else 0),
      sb_volPct = (if tVol > 0 then (snd (snd e) / tVol) * 100 else 0)\<rparr>"

text \<open>
  \<^verbatim>\<open>.sort((a, b) => b.mass - a.mass)\<close> is a stable sort by descending mass, which is
  \<open>sort_key\<close> on the negated mass.
\<close>

definition calculateSolventBreakdown :: "FormulaItem list \<Rightarrow> SolventAnalysis" where
  "calculateSolventBreakdown formula =
     (let acc = foldl solvent_step solvent_init formula;
          tMass = acc_totalSolventMass acc;
          tVol = acc_totalSolventVolume acc;
          rows = sort_key (\<lambda>b. - sb_mass b) (map (solvent_entry tMass tVol) (acc_solventMap acc));
          ethanolVol = (case find_first (\<lambda>b. sb_name b = ''Ethanol'') rows of
                          Some ethanolEntry \<Rightarrow> sb_volume ethanolEntry | None \<Rightarrow> 0);
          vvPct = (if tVol > 0 then (ethanolVol / tVol) * 100 else 0)
      in \<lparr>breakdown = rows, totalSolventMass = tMass, totalSolventVolume = tVol,
           ethanolVvPct = vvPct, flashPointEstimate = estimateFlashPoint vvPct\<rparr>)"

section \<open>Mixture statistics\<close>

text \<open>
  The master list \<open>INGREDIENTS\<close> is imported from a data module and is a parameter here.
  \<open>dbIng\<close> is the first master record with the item's \<open>ingredientId\<close>, and none when the id
  is missing or empty; \<open>item_density\<close> is
  \<^verbatim>\<open>item.customDensity ?? (dbIng ? dbIng.density : 1.0)\<close>.
\<close>

definition dbIng :: "Ingredient list \<Rightarrow> FormulaItem \<Rightarrow> Ingredient option" where
  "dbIng INGREDIENTS item =
     (case item_ingredientId item of
        None \<Rightarrow> None
      | Some i \<Rightarrow> if i = [] then None else find_first (\<lambda>g. ing_id g = i) INGREDIENTS)"

definition item_density :: "Ingredient list \<Rightarrow> FormulaItem \<Rightarrow> real" where
  "item_density INGREDIENTS item =
     (case item_customDensity item of
        Some d \<Rightarrow> d
      | None \<Rightarrow> (case dbIng INGREDIENTS item of Some g \<Rightarrow> ing_density g | None \<Rightarrow> 1.0))"

record stats_acc =
  acc_totalWeight :: real
  acc_totalVolume :: "real option"
  acc_totalCost :: real
  acc_concentrateMass :: real

definition stats_step :: "Ingredient list \<Rightarrow> stats_acc \<Rightarrow> FormulaItem \<Rightarrow> stats_acc" where
  "stats_step INGREDIENTS acc item =
     (let density = item_density INGREDIENTS item;
          vol = js_div (item_weight item) density;
          activeMass = item_weight item * item_dilution item
      in \<lparr>acc_totalWeight = acc_totalWeight acc + item_weight item,
           acc_totalVolume = js_add (acc_totalVolume acc) vol,
           acc_totalCost = acc_totalCost acc + (item_weight item / 1000) * item_costPerKg item,
           acc_concentrateMass = acc_concentrateMass acc + activeMass\<rparr>)"

definition stats_init :: stats_acc where
  "stats_init = \<lparr>acc_totalWeight = 0, acc_totalVolume = Some 0, acc_totalCost = 0,
                  acc_concentrateMass = 0\<rparr>"

definition calculateStats :: "Ingredient list \<Rightarrow> FormulaItem list \<Rightarrow> FormulationStats" where
  "calculateStats INGREDIENTS formula =
     (let acc = foldl (stats_step INGREDIENTS) stats_init formula;
          analysis = calculateSolventBreakdown formula;
          ethMass = (case find_first (\<lambda>b. sb_name b = ''Ethanol'') (breakdown analysis) of
                       Some ethEntry \<Rightarrow> sb_mass ethEntry | None \<Rightarrow> 0)
      in \<lparr>totalWeight = acc_totalWeight acc, totalVolume = acc_totalVolume acc,
           totalCost = acc_totalCost acc, ethanolMass = ethMass,
           concentrateMass = acc_concentrateMass acc, solventAnalysis = analysis\<rparr>)"

section \<open>Natural complex substances\<close>

definition constituent :: "string \<Rightarrow> string \<Rightarrow> real \<Rightarrow> NCSConstituent" where
  "constituent n c p = \<lparr>nc_name = n, nc_cas = c, nc_percent = p\<rparr>"

definition NCS_DATA :: "NCS list" where
  "NCS_DATA = [
  \<lparr>ncs_id = ''bergamot_oil'', ncs_constituents = [
        constituent ''Limonene'' ''5989-27-5'' 0.40,
        constituent ''Linalool'' ''78-70-6'' 0.12,
        constituent ''Citral'' ''5392-40-5'' 0.007,
        constituent ''Berzapten'' ''484-20-8'' 0.002]\<rparr>,
  \<lparr>ncs_id = ''lemon_oil'', ncs_constituents = [
        constituent ''Limonene'' ''5989-27-5'' 0.68,
        constituent ''Citral'' ''5392-40-5'' 0.025,
        constituent ''Geraniol'' ''106-24-1'' 0.003]\<rparr>,
  \<lparr>ncs_id = ''sweet_orange_oil'', ncs_constituents = [
        constituent ''Limonene'' ''5989-27-5'' 0.95,
        constituent ''Linalool'' ''78-70-6'' 0.005,
        constituent ''Citral'' ''5392-40-5'' 0.001]\<rparr>,
  \<lparr>ncs_id = ''grapefruit_oil'', ncs_constituents = [
        constituent ''Limonene'' ''5989-27-5'' 0.90,
        constituent ''Citral'' ''5392-40-5'' 0.005,
        constituent ''Nootkatone'' ''4674-50-4'' 0.01]\<rparr>,
  \<lparr>ncs_id = ''mandarin_oil'', ncs_constituents = [
        constituent ''Limonene'' ''5989-27-5'' 0.72,
        constituent ''Dimethyl Anthranilate'' ''85-91-6'' 0.003]\<rparr>,
  \<lparr>ncs_id = ''lime_oil_distilled'', ncs_constituents = [
        constituent ''Limonene'' ''5989-27-5'' 0.45,
        constituent ''Citral'' ''5392-40-5'' 0.005]\<rparr>,
  \<lparr>ncs_id = ''lime_oil_expressed'', ncs_constituents = [
        constituent ''Limonene'' ''5989-27-5'' 0.55,
        constituent ''Citral'' ''5392-40-5'' 0.04,
        constituent ''Geraniol'' ''106-24-1'' 0.005]\<rparr>,
  \<lparr>ncs_id = ''petitgrain_oil'', ncs_constituents = [
        constituent ''Linalool'' ''78-70-6'' 0.25,
        constituent ''Limonene'' ''5989-27-5'' 0.05,
        constituent ''Geraniol'' ''106-24-1'' 0.03,
        constituent ''Citral'' ''5392-40-5'' 0.001]\<rparr>,
  \<lparr>ncs_id = ''rose_otto'', ncs_constituents = [
        constituent ''Citronellol'' ''106-22-9'' 0.35,
        constituent ''Geraniol'' ''106-24-1'' 0.18,
        constituent ''Eugenol'' ''97-53-0'' 0.015,
        constituent ''Methyl Eugenol'' ''93-15-2'' 0.012,
        constituent ''Farnesol'' ''4602-84-0'' 0.01]\<rparr>,
  \<lparr>ncs_id = ''rose_abs'', ncs_constituents = [
        constituent ''Phenylethyl Alcohol'' ''60-12-8'' 0.65,
        constituent ''Citronellol'' ''106-22-9'' 0.12,
        constituent ''Geraniol'' ''106-24-1'' 0.07,
        constituent ''Eugenol'' ''97-53-0'' 0.015,
        constituent ''Methyl Eugenol'' ''93-15-2'' 0.008]\<rparr>,
  \<lparr>ncs_id = ''jasmine_grandiflorum'', ncs_constituents = [
        constituent ''Benzyl Benzoate'' ''120-51-4'' 0.12,
        constituent ''Benzyl Acetate'' ''140-11-4'' 0.22,
        constituent ''Linalool'' ''78-70-6'' 0.06,
        constituent ''Eugenol'' ''97-53-0'' 0.005]\<rparr>,
  \<lparr>ncs_id = ''jasmine_sambac'', ncs_constituents = [
        constituent ''Benzyl Alcohol'' ''100-51-6'' 0.04,
        constituent ''Linalool'' ''78-70-6'' 0.08,
        constituent ''Methyl Anthranilate'' ''134-20-3'' 0.005]\<rparr>,
  \<lparr>ncs_id = ''ylang_ylang_oil'', ncs_constituents = [
        constituent ''Linalool'' ''78-70-6'' 0.18,
        constituent ''Benzyl Benzoate'' ''120-51-4'' 0.08,
        constituent ''Benzyl Salicylate'' ''118-58-1'' 0.04,
        constituent ''Geraniol'' ''106-24-1'' 0.015,
        constituent ''Farnesol'' ''4602-84-0'' 0.02,
        constituent ''Isoeugenol'' ''97-54-1'' 0.008]\<rparr>,
  \<lparr>ncs_id = ''lavender_oil'', ncs_constituents = [
        constituent ''Linalool'' ''78-70-6'' 0.38,
        constituent ''Geraniol'' ''106-24-1'' 0.005,
        constituent ''Coumarin'' ''91-64-5'' 0.002]\<rparr>,
  \<lparr>ncs_id = ''neroli_oil'', ncs_constituents = [
        constituent ''Linalool'' ''78-70-6'' 0.36,
        constituent ''Limonene'' ''5989-27-5'' 0.12,
        constituent ''Geraniol'' ''106-24-1'' 0.03,
        constituent ''Farnesol'' ''4602-84-0'' 0.03]\<rparr>,
  \<lparr>ncs_id = ''geranium_oil'', ncs_constituents = [
        constituent ''Citronellol'' ''106-22-9'' 0.35,
        constituent ''Geraniol'' ''106-24-1'' 0.15,
        constituent ''Citral'' ''5392-40-5'' 0.01]\<rparr>,
  \<lparr>ncs_id = ''clove_bud_oil'', ncs_constituents = [
        constituent ''Eugenol'' ''97-53-0'' 0.82,
        constituent ''Isoeugenol'' ''97-54-1'' 0.001]\<rparr>,
  \<lparr>ncs_id = ''cinnamon_bark_oil'', ncs_constituents = [
        constituent ''Cinnamal'' ''104-55-2'' 0.65,
        constituent ''Eugenol'' ''97-53-0'' 0.06,
        constituent ''Linalool'' ''78-70-6'' 0.03]\<rparr>,
  \<lparr>ncs_id = ''cardamom_oil'', ncs_constituents = [
        constituent ''Linalool'' ''78-70-6'' 0.04,
        constituent ''Limonene'' ''5989-27-5'' 0.02,
        constituent ''Citral'' ''5392-40-5'' 0.003]\<rparr>,
  \<lparr>ncs_id = ''black_pepper_oil'', ncs_constituents = [
        constituent ''Limonene'' ''5989-27-5'' 0.18,
        constituent ''Linalool'' ''78-70-6'' 0.005]\<rparr>,
  \<lparr>ncs_id = ''nutmeg_oil'', ncs_constituents = [
        constituent ''Limonene'' ''5989-27-5'' 0.04,
        constituent ''Isoeugenol'' ''97-54-1'' 0.005,
        constituent ''Methyleugenol'' ''93-15-2'' 0.005]\<rparr>,
  \<lparr>ncs_id = ''oakmoss_abs'', ncs_constituents = [
        constituent ''Atranol'' ''526-37-4'' 0.015,
        constituent ''Chloroatranol'' ''57074-21-2'' 0.008]\<rparr>,
  \<lparr>ncs_id = ''patchouli_oil'', ncs_constituents = [
        constituent ''Eugenol'' ''97-53-0'' 0.001]\<rparr>,
  \<lparr>ncs_id = ''vetiver_oil'', ncs_constituents = [
        constituent ''Isoeugenol'' ''97-54-1'' 0.001]\<rparr>,
  \<lparr>ncs_id = ''sandalwood_oil'', ncs_constituents = [
        constituent ''Farnesol'' ''4602-84-0'' 0.005]\<rparr>,
  \<lparr>ncs_id = ''olibanum_oil'', ncs_constituents = [
        constituent ''Limonene'' ''5989-27-5'' 0.15,
        constituent ''Linalool'' ''78-70-6'' 0.01]\<rparr>]"

section \<open>Compliance check\<close>

text \<open>
  \<open>massByCas\<close> and \<open>sourcesByCas\<close> are plain objects used as dictionaries: association lists
  in insertion order. A \<open>Set\<close> of sources is a list without duplicates in insertion order.
  The limit library \<open>IFRA_LIBRARY\<close> is imported from a data module and is a parameter here.
  Keys that name members of \<open>Object.prototype\<close>, such as \<open>constructor\<close>, are outside the
  model: for a CAS number of that name the source does not get as far as a report.
\<close>

record compliance_acc =
  massByCas :: "(string \<times> real) list"
  sourcesByCas :: "(string \<times> string list) list"

definition set_add :: "string \<Rightarrow> string list \<Rightarrow> string list" where
  "set_add x xs = (if x \<in> set xs then xs else xs @ [x])"

text \<open>\<^verbatim>\<open>massByCas[k] = (massByCas[k] || 0) + m\<close>\<close>

definition add_mass :: "string \<Rightarrow> real \<Rightarrow> (string \<times> real) list \<Rightarrow> (string \<times> real) list" where
  "add_mass k m tab = AList.update k (or_num (map_of tab k) 0 + m) tab"

text \<open>\<^verbatim>\<open>if (!sourcesByCas[k]) sourcesByCas[k] = new Set(); sourcesByCas[k].add(src)\<close>\<close>

definition add_source ::
  "string \<Rightarrow> string \<Rightarrow> (string \<times> string list) list \<Rightarrow> (string \<times> string list) list" where
  "add_source k src tab =
     AList.update k (set_add src (case map_of tab k of None \<Rightarrow> [] | Some xs \<Rightarrow> xs)) tab"

definition constituent_step ::
  "FormulaItem \<Rightarrow> real \<Rightarrow> compliance_acc \<Rightarrow> NCSConstituent \<Rightarrow> compliance_acc" where
  "constituent_step item realMass acc c =
     (let constituentMass = realMass * nc_percent c in
      \<lparr>massByCas = add_mass (nc_cas c) constituentMass (massByCas acc),
       sourcesByCas =
         add_source (nc_cas c) (item_name item @ '' (Hidden '' @ nc_name c @ '')'')
           (sourcesByCas acc)\<rparr>)"

definition direct_step :: "FormulaItem \<Rightarrow> real \<Rightarrow> compliance_acc \<Rightarrow> compliance_acc" where
  "direct_step item realMass acc =
     (let directCas = trim (item_cas item) in
      if directCas \<noteq> [] \<and> directCas \<noteq> ''Mixture'' then
        \<lparr>massByCas = add_mass directCas realMass (massByCas acc),
         sourcesByCas = add_source directCas (item_name item) (sourcesByCas acc)\<rparr>
      else acc)"

definition ncs_step :: "FormulaItem \<Rightarrow> real \<Rightarrow> compliance_acc \<Rightarrow> compliance_acc" where
  "ncs_step item realMass acc =
     (case item_ingredientId item of
        None \<Rightarrow> acc
      | Some i \<Rightarrow>
          if i = [] then acc
          else (case find_first (\<lambda>n. ncs_id n = i) NCS_DATA of
                  None \<Rightarrow> acc
                | Some ncsProfile \<Rightarrow>
                    foldl (constituent_step item realMass) acc (ncs_constituents ncsProfile)))"

definition compliance_step :: "compliance_acc \<Rightarrow> FormulaItem \<Rightarrow> compliance_acc" where
  "compliance_step acc item =
     (let realMass = item_weight item * item_dilution item in
      ncs_step item realMass (direct_step item realMass acc))"

text \<open>
  For the statements below: the mass accumulated for a CAS number so far (0 without an entry),
  and the constituents that the expansion of an item runs over (none without a profile).
\<close>

definition cas_mass :: "(string \<times> real) list \<Rightarrow> string \<Rightarrow> real" where
  "cas_mass tab k = (case map_of tab k of None \<Rightarrow> 0 | Some m \<Rightarrow> m)"

definition item_constituents :: "FormulaItem \<Rightarrow> NCSConstituent list" where
  "item_constituents item =
     (case item_ingredientId item of
        None \<Rightarrow> []
      | Some i \<Rightarrow>
          if i = [] then []
          else (case find_first (\<lambda>n. ncs_id n = i) NCS_DATA of
                  None \<Rightarrow> []
                | Some ncsProfile \<Rightarrow> ncs_constituents ncsProfile))"

definition compliance_init :: compliance_acc where
  "compliance_init = \<lparr>massByCas = [], sourcesByCas = []\<rparr>"

text \<open>
  \<open>Object.keys\<close> lists the keys that are array indices (canonical decimal numerals below
  \<open>2^32 - 1\<close>) first, in ascending numeric order, and then all other keys in insertion order.
\<close>

definition is_digit :: "char \<Rightarrow> bool" where
  "is_digit c = (let n = (of_char c :: nat) in 48 \<le> n \<and> n \<le> 57)"

definition digits_val :: "string \<Rightarrow> int" where
  "digits_val s = foldl (\<lambda>n c. 10 * n + (of_char c - 48)) 0 s"

definition is_index_key :: "string \<Rightarrow> bool" where
  "is_index_key s =
     (s \<noteq> [] \<and> list_all is_digit s \<and> (length s = 1 \<or> hd s \<noteq> CHR ''0'') \<and>
      digits_val s < 2 ^ 32 - 1)"

definition object_keys :: "(string \<times> 'v) list \<Rightarrow> string list" where
  "object_keys tab =
     sort_key digits_val (filter is_index_key (map fst tab))
       @ filter (\<lambda>k. \<not> is_index_key k) (map fst tab)"

text \<open>
  The limit that is applied, in percent: the category's entry in the limit table when it is a
  number; failing that 0 for a prohibited entry; failing that 100.
\<close>

definition limitPercent :: "IFRAEntry \<Rightarrow> string \<Rightarrow> real" where
  "limitPercent entry targetCategory =
     (case (case ifra_limits entry of None \<Rightarrow> None | Some tbl \<Rightarrow> tbl targetCategory) of
        Some v \<Rightarrow> v
      | None \<Rightarrow> (if ifra_type entry = ''prohibited'' then 0 else 100))"

text \<open>The body of the loop over \<open>Object.keys(massByCas)\<close>: the rows pushed for one key.\<close>

definition compliance_rows ::
  "IFRAData \<Rightarrow> compliance_acc \<Rightarrow> real \<Rightarrow> string \<Rightarrow> string \<Rightarrow> ComplianceResult list" where
  "compliance_rows IFRA_LIBRARY acc totalBatchWeight targetCategory k =
     (case IFRA_LIBRARY k of
        None \<Rightarrow> []
      | Some entry \<Rightarrow>
          (let totalMass = (case map_of (massByCas acc) k of Some m \<Rightarrow> m | None \<Rightarrow> 0);
               concentration = totalMass / totalBatchWeight;
               limitDecimal = limitPercent entry targetCategory / 100
           in [\<lparr>cr_cas = k, cr_name = ifra_name entry, cr_totalMass = totalMass,
                 cr_concentration = concentration, cr_limit = limitDecimal,
                 cr_isCompliant = (concentration \<le> limitDecimal),
                 cr_sources = (case map_of (sourcesByCas acc) k of None \<Rightarrow> [] | Some xs \<Rightarrow> xs),
                 cr_reason = Some (if ifra_type entry = ''prohibited'' then ''Prohibited''
                                   else ''Restriction'')\<rparr>]))"

text \<open>
  The final \<open>sort\<close> is stable and its comparator orders non-compliant rows before compliant
  ones: \<open>sort_key\<close> on the flag, with \<open>False < True\<close>.
\<close>

definition checkCompliance ::
  "IFRAData \<Rightarrow> FormulaItem list \<Rightarrow> real \<Rightarrow> string \<Rightarrow> ComplianceResult list" where
  "checkCompliance IFRA_LIBRARY formula totalBatchWeight targetCategory =
     (if totalBatchWeight = 0 then []
      else
        (let acc = foldl compliance_step compliance_init formula;
             results = concat (map (compliance_rows IFRA_LIBRARY acc totalBatchWeight targetCategory)
                                (object_keys (massByCas acc)))
         in sort_key cr_isCompliant results))"

section \<open>Auxiliary notions\<close>

text \<open>
  What one item adds at the accumulation step of the solvent loop: \<open>item_added\<close> to the total,
  and \<open>item_booking item k\<close> under the name \<open>k\<close>. \<open>row_mass rows k\<close> is the mass of the first
  breakdown row named \<open>k\<close>, and 0 when there is none.
\<close>

definition item_added :: "FormulaItem \<Rightarrow> real" where
  "item_added item =
     (let (solventName, addedMass) = solvent_contribution item in
      if addedMass > 0 \<and> solventName \<noteq> ''None'' then addedMass else 0)"

definition item_booking :: "FormulaItem \<Rightarrow> string \<Rightarrow> real" where
  "item_booking item k =
     (let (solventName, addedMass) = solvent_contribution item in
      if addedMass > 0 \<and> solventName \<noteq> ''None'' \<and> solventName = k then addedMass else 0)"

definition row_mass :: "SolventBreakdownEntry list \<Rightarrow> string \<Rightarrow> real" where
  "row_mass rows k =
     (case find_first (\<lambda>b. sb_name b = k) rows of Some e \<Rightarrow> sb_mass e | None \<Rightarrow> 0)"

section \<open>Example inputs\<close>

text \<open>
  A neat custom line without weight, from which the concrete formulas below are made, a master
  list with two records, and a limit library with three entries.
\<close>

definition blank_item :: FormulaItem where
  "blank_item =
     \<lparr>item_uuid = ''u'', item_ingredientId = None, item_name = ''Item'', item_cas = [],
      item_family = ''Floral'', item_note = ''Top'', item_odorProfile = [], item_weight = 0,
      item_dilution = 1, item_solvent = ''None'', item_costPerKg = 0, item_supplier = [],
      item_customDensity = None, item_accordId = None\<rparr>"

definition example_ingredients :: "Ingredient list" where
  "example_ingredients =
     [\<lparr>ing_id = ''ethanol'', ing_name = ''Ethanol 96'', ing_cas = ''64-17-5'',
       ing_family = ''Solvent'', ing_note = ''Solvent'', ing_odorProfile = [], ing_density = 0.789,
       ing_dilution = 1, ing_solvent = ''None'', ing_costPerKg = 5\<rparr>,
      \<lparr>ing_id = ''dpg'', ing_name = ''Dipropylene Glycol'', ing_cas = ''25265-71-8'',
       ing_family = ''Solvent'', ing_note = ''Solvent'', ing_odorProfile = [], ing_density = 1.02,
       ing_dilution = 1, ing_solvent = ''None'', ing_costPerKg = 10\<rparr>]"

definition example_library :: IFRAData where
  "example_library k =
     (if k = ''484-20-8'' then
        Some \<lparr>ifra_name = ''Bergapten'', ifra_type = ''restricted'',
              ifra_limits = Some (\<lambda>c. if c = ''4'' then Some 0.4 else None)\<rparr>
      else if k = ''5989-27-5'' then
        Some \<lparr>ifra_name = ''Limonene'', ifra_type = ''restricted'', ifra_limits = None\<rparr>
      else if k = ''93-15-2'' then
        Some \<lparr>ifra_name = ''Methyl Eugenol'', ifra_type = ''prohibited'',
              ifra_limits = Some (\<lambda>c. if c = ''4'' then Some 5 else None)\<rparr>
      else None)"

section \<open>Properties of the flash-point estimator\<close>


lemma segment_value_left: "fst p1 \<noteq> fst p2 \<Longrightarrow> segment_value p1 p2 (fst p1) = snd p1"
  by (simp add: segment_value_def)

lemma segment_value_right: "fst p1 \<noteq> fst p2 \<Longrightarrow> segment_value p1 p2 (fst p2) = snd p2"
  by (simp add: segment_value_def)

lemma segment_value_antimono:
  assumes "fst p1 < fst p2" and "snd p2 \<le> snd p1" and "x \<le> y"
  shows "segment_value p1 p2 y \<le> segment_value p1 p2 x"
proof -
  have "(x - fst p1) / (fst p2 - fst p1) \<le> (y - fst p1) / (fst p2 - fst p1)"
    using assms by (simp add: divide_right_mono)
  then have "(y - fst p1) / (fst p2 - fst p1) * (snd p2 - snd p1)
           \<le> (x - fst p1) / (fst p2 - fst p1) * (snd p2 - snd p1)"
    by (rule mult_right_mono_neg) (use assms(2) in simp)
  then show ?thesis by (simp add: segment_value_def)
qed

lemma segment_value_bounds:
  assumes "fst p1 < fst p2" and "snd p2 \<le> snd p1" and "fst p1 \<le> x" and "x \<le> fst p2"
  shows "snd p2 \<le> segment_value p1 p2 x" and "segment_value p1 p2 x \<le> snd p1"
proof -
  have "segment_value p1 p2 (fst p2) \<le> segment_value p1 p2 x"
    using assms by (intro segment_value_antimono) auto
  then show "snd p2 \<le> segment_value p1 p2 x"
    using assms(1) by (simp add: segment_value_right)
  have "segment_value p1 p2 x \<le> segment_value p1 p2 (fst p1)"
    using assms by (intro segment_value_antimono) auto
  then show "segment_value p1 p2 x \<le> snd p1"
    using assms(1) by (simp add: segment_value_left)
qed

lemma interpolate_upper:
  "curve_ok d (p # ps) \<Longrightarrow> fst p \<le> x \<Longrightarrow> interpolate d (p # ps) x \<le> snd p"
proof (induction ps arbitrary: p)
  case Nil
  then show ?case by simp
next
  case (Cons q qs)
  show ?case
  proof (cases "x \<le> fst q")
    case True
    then show ?thesis using Cons.prems segment_value_bounds(2)[of p q x] by simp
  next
    case False
    then have "interpolate d (q # qs) x \<le> snd q" using Cons by simp
    then show ?thesis using False Cons.prems by simp
  qed
qed

lemma interpolate_antimono:
  "curve_ok d (p # ps) \<Longrightarrow> fst p \<le> x \<Longrightarrow> x \<le> y \<Longrightarrow>
   interpolate d (p # ps) y \<le> interpolate d (p # ps) x"
proof (induction ps arbitrary: p)
  case Nil
  then show ?case by simp
next
  case (Cons q qs)
  show ?case
  proof (cases "x \<le> fst q")
    case xin: True
    show ?thesis
    proof (cases "y \<le> fst q")
      case True
      then show ?thesis using xin Cons.prems segment_value_antimono[of p q x y] by simp
    next
      case False
      have "interpolate d (q # qs) y \<le> snd q"
        using Cons.prems False by (intro interpolate_upper) auto
      moreover have "snd q \<le> segment_value p q x"
        using Cons.prems xin by (intro segment_value_bounds(1)) auto
      ultimately show ?thesis using xin False Cons.prems by simp
    qed
  next
    case False
    then have "interpolate d (q # qs) y \<le> interpolate d (q # qs) x"
      using Cons by simp
    then show ?thesis using False Cons.prems by simp
  qed
qed

lemma curve_ok_fst_less: "curve_ok d (a # as) \<Longrightarrow> b \<in> set as \<Longrightarrow> fst a < fst b"
proof (induction as arbitrary: a)
  case Nil
  then show ?case by simp
next
  case (Cons c cs)
  then show ?case by fastforce
qed

lemma interpolate_bracket:
  "curve_ok d ps \<Longrightarrow> (p, q) \<in> set (zip ps (tl ps)) \<Longrightarrow> fst p \<le> x \<Longrightarrow> x \<le> fst q \<Longrightarrow>
   interpolate d ps x = segment_value p q x"
proof (induction d ps x rule: interpolate.induct)
  case (1 d p1 p2 ps x)
  show ?case
  proof (cases "(p, q) = (p1, p2)")
    case True
    then show ?thesis using "1.prems" by simp
  next
    case False
    then have mem: "(p, q) \<in> set (zip (p2 # ps) ps)" using "1.prems"(2) by auto
    then have pin: "p \<in> set (p2 # ps)" by (meson set_zip_leftD)
    have lt: "fst p1 < fst p2" using "1.prems"(1) by simp
    have ge: "fst p2 \<le> fst p"
    proof (cases "p = p2")
      case True then show ?thesis by simp
    next
      case False
      then have "p \<in> set ps" using pin by simp
      then show ?thesis using curve_ok_fst_less[of d p2 ps p] "1.prems"(1) by simp
    qed
    show ?thesis
    proof (cases "x \<ge> fst p1 \<and> x \<le> fst p2")
      case True
      then have xeq: "x = fst p2" "fst p = fst p2" using ge "1.prems"(3) by auto
      have "p = p2"
      proof (rule ccontr)
        assume "p \<noteq> p2"
        then have "p \<in> set ps" using pin by simp
        then show False using curve_ok_fst_less[of d p2 ps p] "1.prems"(1) xeq by simp
      qed
      moreover have "q \<in> set ps" using mem by (meson set_zip_rightD)
      then have "fst p2 \<noteq> fst q" using curve_ok_fst_less[of d p2 ps q] "1.prems"(1) by simp
      ultimately show ?thesis using True xeq lt
        by (simp add: segment_value_right segment_value_left)
    next
      case False
      then have "interpolate d (p2 # ps) x = segment_value p q x"
        using "1.IH" "1.prems" mem by simp
      then show ?thesis using False by auto
    qed
  qed
qed simp_all


lemma curve_ok_points: "curve_ok 13 points"
  by (simp add: points_def)

lemma interpolate_70: "interpolate 13 points 70 = 21"
  by (simp add: points_def segment_value_def)

lemma celsius_estimate:
  "0 < pct \<Longrightarrow> celsius (estimateFlashPoint pct) = Some (interpolate 13 points pct)"
  by (simp add: estimateFlashPoint_def Let_def)

lemma rating_estimate:
  "0 < pct \<Longrightarrow> rating (estimateFlashPoint pct) =
     (if interpolate 13 points pct < 23 then High
      else if interpolate 13 points pct < 60 then Flammable else Low)"
  by (simp add: estimateFlashPoint_def Let_def)

lemma rating_Safe_iff: "rating (estimateFlashPoint pct) = Safe \<longleftrightarrow> pct \<le> 0"
  by (simp add: estimateFlashPoint_def Let_def)

lemma interpolate_beyond: "100 \<le> pct \<Longrightarrow> interpolate 13 points pct = 13"
  by (simp add: points_def segment_value_def)

lemma bracket_exists:
  "0 < pct \<Longrightarrow> pct \<le> 100 \<Longrightarrow> \<exists>((x1, t1), (x2, t2)) \<in> set (zip points (tl points)). x1 \<le> pct \<and> pct \<le> x2"
proof -
  assume a: "0 < pct" "pct \<le> 100"
  then consider "pct \<le> 5" | "5 \<le> pct \<and> pct \<le> 10" | "10 \<le> pct \<and> pct \<le> 20"
    | "20 \<le> pct \<and> pct \<le> 30" | "30 \<le> pct \<and> pct \<le> 40" | "40 \<le> pct \<and> pct \<le> 50"
    | "50 \<le> pct \<and> pct \<le> 60" | "60 \<le> pct \<and> pct \<le> 70" | "70 \<le> pct \<and> pct \<le> 80"
    | "80 \<le> pct \<and> pct \<le> 90" | "90 \<le> pct \<and> pct \<le> 100"
    by linarith
  then show ?thesis using a by cases (simp_all add: points_def)
qed

text \<open>
  Claim C4, as the code has it. A percentage at or below 0 gives no temperature, the rating
  \<open>Safe\<close> and the non-flammable-basis warning, and \<open>Safe\<close> is returned in that case only.
  A percentage above 0 gives a temperature \<open>c\<close>: for every pair of neighbouring control
  points that brackets the percentage \<open>c\<close> is the linear interpolation between the two, up to
  100 such a pair exists, and from 100 on \<open>c\<close> is 13. The rating is \<open>High\<close> below 23,
  \<open>Flammable\<close> from 23 to below 60 and \<open>Low\<close> from 60 on. The control points are the
  twelve of the claim. At 70 the temperature is exactly 21, and the rating is \<open>High\<close>, since
  21 is below 23: the rating \<open>Flammable\<close> that the claim gives for 70 is not what the
  classification yields.
\<close>

theorem estimateFlashPoint_cases:
  "(pct \<le> 0 \<longrightarrow>
      estimateFlashPoint pct =
        \<lparr>celsius = None, rating = Safe, warning = ''Non-flammable solvent basis''\<rparr>)
   \<and> (rating (estimateFlashPoint pct) = Safe \<longleftrightarrow> pct \<le> 0)
   \<and> (0 < pct \<longrightarrow>
        (\<exists>c. celsius (estimateFlashPoint pct) = Some c
           \<and> (\<forall>((x1, t1), (x2, t2)) \<in> set (zip points (tl points)).
                 x1 \<le> pct \<and> pct \<le> x2 \<longrightarrow> c = t1 + (pct - x1) / (x2 - x1) * (t2 - t1))
           \<and> (pct \<le> 100 \<longrightarrow>
                 (\<exists>((x1, t1), (x2, t2)) \<in> set (zip points (tl points)). x1 \<le> pct \<and> pct \<le> x2))
           \<and> (100 \<le> pct \<longrightarrow> c = 13)
           \<and> rating (estimateFlashPoint pct) =
                 (if c < 23 then High else if c < 60 then Flammable else Low)))
   \<and> points = [(0, 100), (5, 62), (10, 49), (20, 36), (30, 29), (40, 26), (50, 24),
               (60, 22), (70, 21), (80, 20), (90, 17), (100, 13)]
   \<and> celsius (estimateFlashPoint 70) = Some 21
   \<and> rating (estimateFlashPoint 70) = High"
proof -
  have A: "pct \<le> 0 \<longrightarrow> estimateFlashPoint pct =
        \<lparr>celsius = None, rating = Safe, warning = ''Non-flammable solvent basis''\<rparr>"
    by (simp add: estimateFlashPoint_def)
  have B: "rating (estimateFlashPoint pct) = Safe \<longleftrightarrow> pct \<le> 0"
    by (rule rating_Safe_iff)
  have D: "points = [(0, 100), (5, 62), (10, 49), (20, 36), (30, 29), (40, 26), (50, 24),
               (60, 22), (70, 21), (80, 20), (90, 17), (100, 13)]"
    by (rule points_def)
  have E: "celsius (estimateFlashPoint 70) = Some 21"
    by (simp add: celsius_estimate interpolate_70)
  have F: "rating (estimateFlashPoint 70) = High"
    by (simp add: rating_estimate interpolate_70)
  have C: "0 < pct \<longrightarrow>
        (\<exists>c. celsius (estimateFlashPoint pct) = Some c
           \<and> (\<forall>((x1, t1), (x2, t2)) \<in> set (zip points (tl points)).
                 x1 \<le> pct \<and> pct \<le> x2 \<longrightarrow> c = t1 + (pct - x1) / (x2 - x1) * (t2 - t1))
           \<and> (pct \<le> 100 \<longrightarrow>
                 (\<exists>((x1, t1), (x2, t2)) \<in> set (zip points (tl points)). x1 \<le> pct \<and> pct \<le> x2))
           \<and> (100 \<le> pct \<longrightarrow> c = 13)
           \<and> rating (estimateFlashPoint pct) =
                 (if c < 23 then High else if c < 60 then Flammable else Low))"
  proof
    assume pos: "0 < pct"
    let ?c = "interpolate 13 points pct"
    have 1: "celsius (estimateFlashPoint pct) = Some ?c" using pos by (rule celsius_estimate)
    have 2: "\<forall>((x1, t1), (x2, t2)) \<in> set (zip points (tl points)).
               x1 \<le> pct \<and> pct \<le> x2 \<longrightarrow> ?c = t1 + (pct - x1) / (x2 - x1) * (t2 - t1)"
    proof -
      have "?c = t1 + (pct - x1) / (x2 - x1) * (t2 - t1)"
        if "((x1, t1), (x2, t2)) \<in> set (zip points (tl points))" and "x1 \<le> pct" and "pct \<le> x2"
        for x1 t1 x2 t2
      proof -
        have "?c = segment_value (x1, t1) (x2, t2) pct"
          using interpolate_bracket[OF curve_ok_points, of "(x1, t1)" "(x2, t2)" pct] that
          by simp
        then show ?thesis by (simp add: segment_value_def)
      qed
      then show ?thesis by blast
    qed
    have 3: "pct \<le> 100 \<longrightarrow>
               (\<exists>((x1, t1), (x2, t2)) \<in> set (zip points (tl points)). x1 \<le> pct \<and> pct \<le> x2)"
      using bracket_exists[OF pos] by blast
    have 4: "100 \<le> pct \<longrightarrow> ?c = 13" using interpolate_beyond by simp
    have 5: "rating (estimateFlashPoint pct) =
               (if ?c < 23 then High else if ?c < 60 then Flammable else Low)"
      using pos by (rule rating_estimate)
    from 1 2 3 4 5 show "\<exists>c. celsius (estimateFlashPoint pct) = Some c
           \<and> (\<forall>((x1, t1), (x2, t2)) \<in> set (zip points (tl points)).
                 x1 \<le> pct \<and> pct \<le> x2 \<longrightarrow> c = t1 + (pct - x1) / (x2 - x1) * (t2 - t1))
           \<and> (pct \<le> 100 \<longrightarrow>
                 (\<exists>((x1, t1), (x2, t2)) \<in> set (zip points (tl points)). x1 \<le> pct \<and> pct \<le> x2))
           \<and> (100 \<le> pct \<longrightarrow> c = 13)
           \<and> rating (estimateFlashPoint pct) =
                 (if c < 23 then High else if c < 60 then Flammable else Low)"
      by (intro exI[of _ ?c] conjI)
  qed
  from A B C D E F show ?thesis by (intro conjI)
qed

text \<open>Instances at -1, at 35 (between the points at 30 and 40) and at 120.\<close>

theorem estimateFlashPoint_cases_witness:
  "estimateFlashPoint (- 1) = \<lparr>celsius = None, rating = Safe, warning = ''Non-flammable solvent basis''\<rparr>
   \<and> celsius (estimateFlashPoint 35) = Some (55 / 2)
   \<and> rating (estimateFlashPoint 35) = Flammable
   \<and> celsius (estimateFlashPoint 120) = Some 13"
proof -
  have w1: "estimateFlashPoint (- 1) =
      \<lparr>celsius = None, rating = Safe, warning = ''Non-flammable solvent basis''\<rparr>"
    using estimateFlashPoint_cases[of "- 1", THEN conjunct1] by simp
  have mem: "((30, 29), (40, 26)) \<in> set (zip points (tl points))"
    by (simp add: points_def)
  have p35: "(0::real) < 35" by simp
  obtain c where c: "celsius (estimateFlashPoint 35) = Some c"
    and br: "\<forall>((x1, t1), (x2, t2)) \<in> set (zip points (tl points)).
                 x1 \<le> 35 \<and> 35 \<le> x2 \<longrightarrow> c = t1 + (35 - x1) / (x2 - x1) * (t2 - t1)"
    and rt: "rating (estimateFlashPoint 35) =
                 (if c < 23 then High else if c < 60 then Flammable else Low)"
    using estimateFlashPoint_cases[of 35, THEN conjunct2, THEN conjunct2, THEN conjunct1] p35
    by blast
  have "(30::real) \<le> 35 \<and> (35::real) \<le> 40 \<longrightarrow> c = 29 + (35 - 30) / (40 - 30) * (26 - 29)"
    using bspec[OF br mem] by simp
  then have cv: "c = 55 / 2" by simp
  have p120: "(0::real) < 120" by simp
  obtain d where d: "celsius (estimateFlashPoint 120) = Some d" and dv: "(100::real) \<le> 120 \<longrightarrow> d = 13"
    using estimateFlashPoint_cases[of 120, THEN conjunct2, THEN conjunct2, THEN conjunct1] p120
    by blast
  have "d = 13" using dv by simp
  then show ?thesis using w1 c cv rt d by simp
qed

text \<open>
  Claim C4 as stated fails at 70: the estimate there is 21 degrees, rated \<open>High\<close> and not
  \<open>Flammable\<close>.
\<close>

theorem estimateFlashPoint_70_counterexample:
  "celsius (estimateFlashPoint 70) = Some 21 \<and> rating (estimateFlashPoint 70) = High
   \<and> rating (estimateFlashPoint 70) \<noteq> Flammable"
  by (simp add: celsius_estimate rating_estimate interpolate_70)

lemma interpolate_points_antimono:
  assumes "0 < x" and "x \<le> y"
  shows "interpolate 13 points y \<le> interpolate 13 points x"
proof -
  obtain p ps where ps: "points = p # ps" and p: "fst p = 0"
    by (simp add: points_def)
  have "curve_ok 13 (p # ps)" using curve_ok_points ps by simp
  then have "interpolate 13 (p # ps) y \<le> interpolate 13 (p # ps) x"
    using assms p by (intro interpolate_antimono) auto
  then show ?thesis using ps by simp
qed

text \<open>
  Claim C8: the estimate never rises with the ethanol percentage. For percentages
  \<open>0 < x \<le> y\<close> both estimates are temperatures, and the one at \<open>y\<close> is not above the one
  at \<open>x\<close>.
\<close>

theorem estimateFlashPoint_antimono:
  "0 < x \<Longrightarrow> x \<le> y \<Longrightarrow>
   \<exists>cx cy. celsius (estimateFlashPoint x) = Some cx \<and> celsius (estimateFlashPoint y) = Some cy
      \<and> cy \<le> cx"
  using interpolate_points_antimono[of x y] by (simp add: celsius_estimate)

lemma interpolate_10: "interpolate 13 points 10 = 49"
  by (simp add: points_def segment_value_def)

lemma interpolate_20: "interpolate 13 points 20 = 36"
  by (simp add: points_def segment_value_def)

text \<open>An instance: 49 degrees at 10 percent, 36 degrees at 20 percent.\<close>

theorem estimateFlashPoint_antimono_witness:
  "(0::real) < 10 \<and> (10::real) \<le> 20 \<and> celsius (estimateFlashPoint 10) = Some 49
   \<and> celsius (estimateFlashPoint 20) = Some 36 \<and> (36::real) \<le> 49"
  using estimateFlashPoint_antimono[of 10 20]
  by (simp add: celsius_estimate interpolate_10 interpolate_20)

section \<open>Properties of the mixture statistics\<close>

text \<open>The sum of the per-item volumes: non-finite as soon as one density is 0.\<close>

lemma js_add_Some: "js_add (Some a) (Some b) = Some (a + b)"
  by (simp add: js_add_def)

lemma js_add_None: "js_add None v = None" "js_add v None = None"
  by (simp_all add: js_add_def split: option.splits)

lemma foldl_stats_weight:
  "acc_totalWeight (foldl (stats_step I) acc f) = acc_totalWeight acc + (\<Sum>item\<leftarrow>f. item_weight item)"
  by (induction f arbitrary: acc) (simp_all add: stats_step_def Let_def)

lemma foldl_stats_cost:
  "acc_totalCost (foldl (stats_step I) acc f) =
     acc_totalCost acc + (\<Sum>item\<leftarrow>f. (item_weight item / 1000) * item_costPerKg item)"
  by (induction f arbitrary: acc) (simp_all add: stats_step_def Let_def)

lemma foldl_stats_concentrate:
  "acc_concentrateMass (foldl (stats_step I) acc f) =
     acc_concentrateMass acc + (\<Sum>item\<leftarrow>f. item_weight item * item_dilution item)"
  by (induction f arbitrary: acc) (simp_all add: stats_step_def Let_def)

lemma foldl_stats_volume_None:
  "acc_totalVolume acc = None \<Longrightarrow> acc_totalVolume (foldl (stats_step I) acc f) = None"
  by (induction f arbitrary: acc) (simp_all add: stats_step_def Let_def js_add_None)

lemma foldl_stats_volume:
  "acc_totalVolume acc = Some v \<Longrightarrow>
   acc_totalVolume (foldl (stats_step I) acc f) =
     (if \<forall>item\<in>set f. item_density I item \<noteq> 0
      then Some (v + (\<Sum>item\<leftarrow>f. item_weight item / item_density I item)) else None)"
proof (induction f arbitrary: acc v)
  case Nil
  then show ?case by simp
next
  case (Cons a f)
  show ?case
  proof (cases "item_density I a = 0")
    case True
    then have "acc_totalVolume (stats_step I acc a) = None"
      by (simp add: stats_step_def Let_def js_div_def js_add_None)
    then show ?thesis using True by (simp add: foldl_stats_volume_None)
  next
    case False
    then have "acc_totalVolume (stats_step I acc a) = Some (v + item_weight a / item_density I a)"
      using Cons.prems by (simp add: stats_step_def Let_def js_div_def js_add_Some)
    from Cons.IH[OF this] show ?thesis using False by (simp add: add.assoc)
  qed
qed

lemma totalWeight_sum:
  "totalWeight (calculateStats I f) = (\<Sum>item\<leftarrow>f. item_weight item)"
  by (simp add: calculateStats_def Let_def foldl_stats_weight stats_init_def)

lemma totalCost_sum:
  "totalCost (calculateStats I f) = (\<Sum>item\<leftarrow>f. (item_weight item / 1000) * item_costPerKg item)"
  by (simp add: calculateStats_def Let_def foldl_stats_cost stats_init_def)

lemma concentrateMass_sum:
  "concentrateMass (calculateStats I f) = (\<Sum>item\<leftarrow>f. item_weight item * item_dilution item)"
  by (simp add: calculateStats_def Let_def foldl_stats_concentrate stats_init_def)

lemma totalVolume_sum:
  "totalVolume (calculateStats I f) =
     (if \<forall>item\<in>set f. item_density I item \<noteq> 0
      then Some (\<Sum>item\<leftarrow>f. item_weight item / item_density I item) else None)"
proof -
  have "acc_totalVolume stats_init = Some 0" by (simp add: stats_init_def)
  from foldl_stats_volume[OF this] show ?thesis
    by (simp add: calculateStats_def Let_def)
qed

lemma calculateSolventBreakdown_Nil:
  "calculateSolventBreakdown [] =
     \<lparr>breakdown = [], totalSolventMass = 0, totalSolventVolume = 0, ethanolVvPct = 0,
      flashPointEstimate = estimateFlashPoint 0\<rparr>"
  by (simp add: calculateSolventBreakdown_def solvent_init_def Let_def)

lemma calculateStats_Nil:
  "calculateStats I [] =
     \<lparr>totalWeight = 0, totalVolume = Some 0, totalCost = 0, ethanolMass = 0, concentrateMass = 0,
      solventAnalysis = calculateSolventBreakdown []\<rparr>"
  by (simp add: calculateStats_def Let_def stats_init_def calculateSolventBreakdown_Nil)

lemma item_density_cases:
  "(item_customDensity item = Some d \<longrightarrow> item_density I item = d)
   \<and> (item_customDensity item = None \<and> dbIng I item = Some g \<longrightarrow> item_density I item = ing_density g)
   \<and> (item_customDensity item = None \<and> dbIng I item = None \<longrightarrow> item_density I item = 1)"
  by (simp add: item_density_def)

text \<open>\<open>find_first\<close> returns the first element with the property, and none when there is none.\<close>

lemma find_first_None_iff: "find_first P xs = None \<longleftrightarrow> (\<forall>x\<in>set xs. \<not> P x)"
  by (induction xs) simp_all

lemma find_first_Some_iff:
  "find_first P xs = Some x \<longleftrightarrow> (\<exists>pre post. xs = pre @ x # post \<and> P x \<and> (\<forall>y\<in>set pre. \<not> P y))"
proof (induction xs)
  case Nil
  then show ?case by simp
next
  case (Cons a xs)
  show ?case
  proof (cases "P a")
    case True
    have "(\<exists>pre post. a # xs = pre @ x # post \<and> P x \<and> (\<forall>y\<in>set pre. \<not> P y)) \<longleftrightarrow> a = x"
    proof
      assume "\<exists>pre post. a # xs = pre @ x # post \<and> P x \<and> (\<forall>y\<in>set pre. \<not> P y)"
      then obtain pre post where e: "a # xs = pre @ x # post" and n: "\<forall>y\<in>set pre. \<not> P y"
        by blast
      show "a = x"
      proof (cases pre)
        case Nil
        then show ?thesis using e by simp
      next
        case (Cons b bs)
        then have "a \<in> set pre" using e by simp
        then show ?thesis using n True by blast
      qed
    next
      assume "a = x"
      then have "a # xs = [] @ x # xs \<and> P x \<and> (\<forall>y\<in>set []. \<not> P y)" using True by simp
      then show "\<exists>pre post. a # xs = pre @ x # post \<and> P x \<and> (\<forall>y\<in>set pre. \<not> P y)"
        by blast
    qed
    then show ?thesis using True by simp
  next
    case False
    have "(\<exists>pre post. a # xs = pre @ x # post \<and> P x \<and> (\<forall>y\<in>set pre. \<not> P y))
        \<longleftrightarrow> (\<exists>pre post. xs = pre @ x # post \<and> P x \<and> (\<forall>y\<in>set pre. \<not> P y))"
    proof
      assume "\<exists>pre post. a # xs = pre @ x # post \<and> P x \<and> (\<forall>y\<in>set pre. \<not> P y)"
      then obtain pre post where e: "a # xs = pre @ x # post" and p: "P x"
        and n: "\<forall>y\<in>set pre. \<not> P y" by blast
      show "\<exists>pre post. xs = pre @ x # post \<and> P x \<and> (\<forall>y\<in>set pre. \<not> P y)"
      proof (cases pre)
        case Nil
        then show ?thesis using e p False by simp
      next
        case (Cons b bs)
        then have "xs = bs @ x # post \<and> P x \<and> (\<forall>y\<in>set bs. \<not> P y)" using e p n by simp
        then show ?thesis by blast
      qed
    next
      assume "\<exists>pre post. xs = pre @ x # post \<and> P x \<and> (\<forall>y\<in>set pre. \<not> P y)"
      then obtain pre post where "xs = pre @ x # post" "P x" "\<forall>y\<in>set pre. \<not> P y" by blast
      then have "a # xs = (a # pre) @ x # post \<and> P x \<and> (\<forall>y\<in>set (a # pre). \<not> P y)"
        using False by simp
      then show "\<exists>pre post. a # xs = pre @ x # post \<and> P x \<and> (\<forall>y\<in>set pre. \<not> P y)"
        by blast
    qed
    then show ?thesis using False Cons.IH by simp
  qed
qed

text \<open>
  The linked master ingredient of an item: the first record of the master list whose id is the
  item's non-empty \<open>ingredientId\<close>; there is none exactly when the id is missing, empty or not
  in the list.
\<close>

lemma dbIng_Some_iff:
  "dbIng I item = Some g \<longleftrightarrow>
     (\<exists>i pre post. item_ingredientId item = Some i \<and> i \<noteq> [] \<and> I = pre @ g # post
        \<and> ing_id g = i \<and> (\<forall>h\<in>set pre. ing_id h \<noteq> i))"
proof (cases "item_ingredientId item")
  case None
  then show ?thesis by (simp add: dbIng_def)
next
  case (Some i)
  show ?thesis
  proof (cases "i = []")
    case True
    then show ?thesis using Some by (simp add: dbIng_def)
  next
    case False
    then have "dbIng I item = find_first (\<lambda>g. ing_id g = i) I"
      using Some by (simp add: dbIng_def)
    then show ?thesis
      using Some False find_first_Some_iff[of "\<lambda>g. ing_id g = i" I g] by auto
  qed
qed

lemma dbIng_None_iff:
  "dbIng I item = None \<longleftrightarrow>
     (item_ingredientId item = None \<or> item_ingredientId item = Some []
      \<or> (\<forall>h\<in>set I. Some (ing_id h) \<noteq> item_ingredientId item))"
proof (cases "item_ingredientId item")
  case None
  then show ?thesis by (simp add: dbIng_def)
next
  case (Some i)
  show ?thesis
  proof (cases "i = []")
    case True
    then show ?thesis using Some by (simp add: dbIng_def)
  next
    case False
    then have "dbIng I item = find_first (\<lambda>g. ing_id g = i) I"
      using Some by (simp add: dbIng_def)
    then show ?thesis
      using Some False find_first_None_iff[of "\<lambda>g. ing_id g = i" I] by auto
  qed
qed

text \<open>
  Claim C3. For every formula \<open>totalWeight\<close> is the sum of the item weights, \<open>totalCost\<close> the
  sum of \<open>(weight / 1000) * costPerKg\<close>, \<open>concentrateMass\<close> the sum of \<open>weight * dilution\<close>,
  and \<open>totalVolume\<close> the sum of \<open>weight / density\<close>, a finite number when no density is 0 and
  non-finite otherwise, as the sum of the quotients is in the source. The density of an item
  is its \<open>customDensity\<close> when present, else the density of the linked master ingredient, else
  1. The linked master ingredient \<open>dbIng\<close> is the first record of the master list that carries
  the item's non-empty \<open>ingredientId\<close>, and there is none exactly when the id is missing,
  empty or not in the list. The empty formula yields all totals zero.
\<close>

theorem calculateStats_totals:
  "totalWeight (calculateStats I f) = (\<Sum>item\<leftarrow>f. item_weight item)
   \<and> totalVolume (calculateStats I f) =
       (if \<forall>item\<in>set f. item_density I item \<noteq> 0
        then Some (\<Sum>item\<leftarrow>f. item_weight item / item_density I item) else None)
   \<and> totalCost (calculateStats I f) = (\<Sum>item\<leftarrow>f. (item_weight item / 1000) * item_costPerKg item)
   \<and> concentrateMass (calculateStats I f) = (\<Sum>item\<leftarrow>f. item_weight item * item_dilution item)
   \<and> (item_customDensity item = Some d \<longrightarrow> item_density I item = d)
   \<and> (item_customDensity item = None \<and> dbIng I item = Some g \<longrightarrow> item_density I item = ing_density g)
   \<and> (item_customDensity item = None \<and> dbIng I item = None \<longrightarrow> item_density I item = 1)
   \<and> (dbIng I item = Some g \<longleftrightarrow>
        (\<exists>i pre post. item_ingredientId item = Some i \<and> i \<noteq> [] \<and> I = pre @ g # post
           \<and> ing_id g = i \<and> (\<forall>h\<in>set pre. ing_id h \<noteq> i)))
   \<and> (dbIng I item = None \<longleftrightarrow>
        (item_ingredientId item = None \<or> item_ingredientId item = Some []
         \<or> (\<forall>h\<in>set I. Some (ing_id h) \<noteq> item_ingredientId item)))
   \<and> totalWeight (calculateStats I []) = 0
   \<and> totalVolume (calculateStats I []) = Some 0
   \<and> totalCost (calculateStats I []) = 0
   \<and> concentrateMass (calculateStats I []) = 0
   \<and> ethanolMass (calculateStats I []) = 0"
proof -
  have sums: "totalWeight (calculateStats I f) = (\<Sum>item\<leftarrow>f. item_weight item)
   \<and> totalVolume (calculateStats I f) =
       (if \<forall>item\<in>set f. item_density I item \<noteq> 0
        then Some (\<Sum>item\<leftarrow>f. item_weight item / item_density I item) else None)
   \<and> totalCost (calculateStats I f) = (\<Sum>item\<leftarrow>f. (item_weight item / 1000) * item_costPerKg item)
   \<and> concentrateMass (calculateStats I f) = (\<Sum>item\<leftarrow>f. item_weight item * item_dilution item)"
    by (simp only: totalWeight_sum totalVolume_sum totalCost_sum concentrateMass_sum simp_thms)
  have empty: "totalWeight (calculateStats I []) = 0
   \<and> totalVolume (calculateStats I []) = Some 0
   \<and> totalCost (calculateStats I []) = 0
   \<and> concentrateMass (calculateStats I []) = 0
   \<and> ethanolMass (calculateStats I []) = 0"
    by (simp only: calculateStats_Nil FormulationStats.simps simp_thms)
  show ?thesis
    using sums item_density_cases[of item d I g] dbIng_Some_iff[of I item g] dbIng_None_iff[of I item]
      empty
    by (intro conjI) blast+
qed

text \<open>
  An instance with one line of each kind: a custom density of 0.8; a link to \<open>dpg\<close>, the
  second record of the master list, whose density 1.02 is taken and not the 0.789 of the
  first record; and no link, with the default 1. The volumes are 10, 50 and 5 ml.
\<close>

theorem calculateStats_totals_witness:
  "totalWeight (calculateStats example_ingredients
      [blank_item\<lparr>item_weight := 8, item_customDensity := Some 0.8\<rparr>,
       blank_item\<lparr>item_weight := 51, item_ingredientId := Some ''dpg'', item_costPerKg := 10\<rparr>,
       blank_item\<lparr>item_weight := 5, item_dilution := 0.5\<rparr>]) = 64
   \<and> totalVolume (calculateStats example_ingredients
      [blank_item\<lparr>item_weight := 8, item_customDensity := Some 0.8\<rparr>,
       blank_item\<lparr>item_weight := 51, item_ingredientId := Some ''dpg'', item_costPerKg := 10\<rparr>,
       blank_item\<lparr>item_weight := 5, item_dilution := 0.5\<rparr>]) = Some 65
   \<and> item_density example_ingredients (blank_item\<lparr>item_weight := 8, item_customDensity := Some 0.8\<rparr>) = 0.8
   \<and> dbIng example_ingredients
        (blank_item\<lparr>item_weight := 51, item_ingredientId := Some ''dpg'', item_costPerKg := 10\<rparr>)
       = Some (example_ingredients ! 1)
   \<and> ing_id (example_ingredients ! 0) = ''ethanol''
   \<and> ing_id (example_ingredients ! 1) = ''dpg''
   \<and> item_density example_ingredients
        (blank_item\<lparr>item_weight := 51, item_ingredientId := Some ''dpg'', item_costPerKg := 10\<rparr>) = 1.02
   \<and> dbIng example_ingredients (blank_item\<lparr>item_weight := 5, item_dilution := 0.5\<rparr>) = None
   \<and> item_density example_ingredients (blank_item\<lparr>item_weight := 5, item_dilution := 0.5\<rparr>) = 1"
proof -
  let ?a = "blank_item\<lparr>item_weight := 8, item_customDensity := Some 0.8\<rparr>"
  let ?b = "blank_item\<lparr>item_weight := 51, item_ingredientId := Some ''dpg'', item_costPerKg := 10\<rparr>"
  let ?c = "blank_item\<lparr>item_weight := 5, item_dilution := 0.5\<rparr>"
  let ?g = "example_ingredients ! 1"
  note A = calculateStats_totals[of example_ingredients "[?a, ?b, ?c]" ?a "0.8" ?g]
  note B = calculateStats_totals[of example_ingredients "[]" ?b 0 ?g]
  note C = calculateStats_totals[of example_ingredients "[]" ?c 0 ?g]
  have da: "item_density example_ingredients ?a = 0.8"
    using A by (simp add: blank_item_def)
  have pre: "\<exists>i pre post. item_ingredientId ?b = Some i \<and> i \<noteq> [] \<and> example_ingredients = pre @ ?g # post
        \<and> ing_id ?g = i \<and> (\<forall>h\<in>set pre. ing_id h \<noteq> i)"
    by (intro exI[of _ "''dpg''"] exI[of _ "[example_ingredients ! 0]"] exI[of _ "[]"])
       (simp add: blank_item_def example_ingredients_def)
  have gb: "dbIng example_ingredients ?b = Some ?g"
    using B pre by blast
  have "item_customDensity ?b = None" by (simp add: blank_item_def)
  then have "item_density example_ingredients ?b = ing_density ?g"
    using B gb by blast
  then have db: "item_density example_ingredients ?b = 1.02"
    by (simp add: example_ingredients_def)
  have nc: "item_ingredientId ?c = None" "item_customDensity ?c = None"
    by (simp_all add: blank_item_def)
  have gc: "dbIng example_ingredients ?c = None"
    using C nc(1) by blast
  have dc: "item_density example_ingredients ?c = 1"
    using C nc(2) gc by blast
  have ids: "ing_id (example_ingredients ! 0) = ''ethanol''" "ing_id (example_ingredients ! 1) = ''dpg''"
    by (simp_all add: example_ingredients_def)
  have nz: "\<forall>item\<in>set [?a, ?b, ?c]. item_density example_ingredients item \<noteq> 0"
    using da db dc by simp
  have "totalVolume (calculateStats example_ingredients [?a, ?b, ?c])
      = Some (\<Sum>item\<leftarrow>[?a, ?b, ?c]. item_weight item / item_density example_ingredients item)"
    using A nz by presburger
  then have tv: "totalVolume (calculateStats example_ingredients [?a, ?b, ?c]) = Some 65"
    by (simp only: list.map sum_list.Cons sum_list.Nil da db dc) (simp add: blank_item_def)
  have "totalWeight (calculateStats example_ingredients [?a, ?b, ?c])
      = (\<Sum>item\<leftarrow>[?a, ?b, ?c]. item_weight item)"
    using A by blast
  then have tw: "totalWeight (calculateStats example_ingredients [?a, ?b, ?c]) = 64"
    by (simp add: blank_item_def)
  show ?thesis using tw tv da gb ids db gc dc by blast
qed

lemma concentrate_le_weight:
  assumes "\<forall>item\<in>set f. 0 \<le> item_weight item \<and> item_dilution item \<le> 1"
  shows "(\<Sum>item\<leftarrow>f. item_weight item * item_dilution item) \<le> (\<Sum>item\<leftarrow>f. item_weight item)"
proof (rule sum_list_mono)
  fix item assume "item \<in> set f"
  then have "0 \<le> item_weight item" "item_dilution item \<le> 1" using assms by auto
  then show "item_weight item * item_dilution item \<le> item_weight item"
    using mult_left_mono[of "item_dilution item" 1 "item_weight item"] by simp
qed

lemma concentrate_eq_weight_iff:
  assumes "\<forall>item\<in>set f. 0 \<le> item_weight item \<and> item_dilution item \<le> 1"
  shows "(\<Sum>item\<leftarrow>f. item_weight item * item_dilution item) = (\<Sum>item\<leftarrow>f. item_weight item)
     \<longleftrightarrow> (\<forall>item\<in>set f. item_weight item = 0 \<or> item_dilution item = 1)"
  using assms
proof (induction f)
  case Nil
  then show ?case by simp
next
  case (Cons a f)
  have tl: "\<forall>item\<in>set f. 0 \<le> item_weight item \<and> item_dilution item \<le> 1"
    using Cons.prems by simp
  have le_tl: "(\<Sum>item\<leftarrow>f. item_weight item * item_dilution item) \<le> (\<Sum>item\<leftarrow>f. item_weight item)"
    using tl by (rule concentrate_le_weight)
  have a: "0 \<le> item_weight a" "item_dilution a \<le> 1" using Cons.prems by auto
  have le_a: "item_weight a * item_dilution a \<le> item_weight a"
    using mult_left_mono[of "item_dilution a" 1 "item_weight a"] a by simp
  have eq_a: "item_weight a * item_dilution a = item_weight a
      \<longleftrightarrow> item_weight a = 0 \<or> item_dilution a = 1"
    by auto
  have "item_weight a * item_dilution a + (\<Sum>item\<leftarrow>f. item_weight item * item_dilution item)
        = item_weight a + (\<Sum>item\<leftarrow>f. item_weight item)
     \<longleftrightarrow> item_weight a * item_dilution a = item_weight a
         \<and> (\<Sum>item\<leftarrow>f. item_weight item * item_dilution item) = (\<Sum>item\<leftarrow>f. item_weight item)"
    using le_a le_tl by linarith
  then show ?case using Cons.IH[OF tl] eq_a by simp
qed

text \<open>In exact arithmetic the totals differ as soon as a line of non-zero weight is diluted.\<close>

lemma concentrate_eq_weight_exact:
  assumes "\<forall>item\<in>set f. 0 \<le> item_weight item \<and> item_dilution item \<le> 1"
  shows "concentrateMass (calculateStats I f) = totalWeight (calculateStats I f)
     \<longleftrightarrow> (\<forall>item\<in>set f. item_weight item = 0 \<or> item_dilution item = 1)"
  using concentrate_eq_weight_iff[OF assms]
  by (simp only: totalWeight_sum concentrateMass_sum)

lemma concentrate_eq_weight_if:
  assumes "\<forall>item\<in>set f. item_weight item = 0 \<or> item_dilution item = 1"
  shows "(\<Sum>item\<leftarrow>f. item_weight item * item_dilution item) = (\<Sum>item\<leftarrow>f. item_weight item)"
  using assms by (induction f) auto

text \<open>
  Claim C7, as amended. For every formula in which each item has a weight of at least 0 and a
  dilution in \<open>(0, 1]\<close>, \<open>concentrateMass\<close> is at most \<open>totalWeight\<close>, and the two are equal
  when every item of non-zero weight has dilution 1: every summand of the one is then the
  summand of the other.
\<close>

theorem concentrateMass_le_totalWeight:
  assumes "\<forall>item\<in>set f. 0 \<le> item_weight item \<and> 0 < item_dilution item \<and> item_dilution item \<le> 1"
  shows "concentrateMass (calculateStats I f) \<le> totalWeight (calculateStats I f)
     \<and> ((\<forall>item\<in>set f. item_weight item = 0 \<or> item_dilution item = 1)
          \<longrightarrow> concentrateMass (calculateStats I f) = totalWeight (calculateStats I f))"
proof -
  have h: "\<forall>item\<in>set f. 0 \<le> item_weight item \<and> item_dilution item \<le> 1"
    using assms by simp
  have le: "concentrateMass (calculateStats I f) \<le> totalWeight (calculateStats I f)"
    using concentrate_le_weight[OF h] by (simp only: totalWeight_sum concentrateMass_sum)
  have eq: "concentrateMass (calculateStats I f) = totalWeight (calculateStats I f)"
    if "\<forall>item\<in>set f. item_weight item = 0 \<or> item_dilution item = 1"
    using concentrate_eq_weight_if[OF that] by (simp only: totalWeight_sum concentrateMass_sum)
  show ?thesis using le eq by blast
qed

text \<open>
  Instances: 10 g at 50 % and 5 g neat give 10 g of concentrate in 15 g; a line without
  weight at 50 % beside 5 g neat gives equal totals.
\<close>

theorem concentrateMass_le_totalWeight_witness:
  "0 \<le> item_weight (blank_item\<lparr>item_weight := 10, item_dilution := 0.5\<rparr>)
   \<and> 0 < item_dilution (blank_item\<lparr>item_weight := 10, item_dilution := 0.5\<rparr>)
   \<and> item_dilution (blank_item\<lparr>item_weight := 10, item_dilution := 0.5\<rparr>) \<le> 1
   \<and> 0 \<le> item_weight (blank_item\<lparr>item_weight := 5\<rparr>)
   \<and> 0 < item_dilution (blank_item\<lparr>item_weight := 5\<rparr>)
   \<and> item_dilution (blank_item\<lparr>item_weight := 5\<rparr>) \<le> 1
   \<and> concentrateMass (calculateStats []
        [blank_item\<lparr>item_weight := 10, item_dilution := 0.5\<rparr>, blank_item\<lparr>item_weight := 5\<rparr>]) = 10
   \<and> totalWeight (calculateStats []
        [blank_item\<lparr>item_weight := 10, item_dilution := 0.5\<rparr>, blank_item\<lparr>item_weight := 5\<rparr>]) = 15
   \<and> concentrateMass (calculateStats []
        [blank_item\<lparr>item_weight := 10, item_dilution := 0.5\<rparr>, blank_item\<lparr>item_weight := 5\<rparr>])
      \<le> totalWeight (calculateStats []
        [blank_item\<lparr>item_weight := 10, item_dilution := 0.5\<rparr>, blank_item\<lparr>item_weight := 5\<rparr>])
   \<and> item_weight (blank_item\<lparr>item_dilution := 0.5\<rparr>) = 0
   \<and> item_dilution (blank_item\<lparr>item_weight := 5\<rparr>) = 1
   \<and> concentrateMass (calculateStats []
        [blank_item\<lparr>item_dilution := 0.5\<rparr>, blank_item\<lparr>item_weight := 5\<rparr>])
      = totalWeight (calculateStats []
        [blank_item\<lparr>item_dilution := 0.5\<rparr>, blank_item\<lparr>item_weight := 5\<rparr>])"
proof -
  let ?f = "[blank_item\<lparr>item_weight := 10, item_dilution := 0.5\<rparr>, blank_item\<lparr>item_weight := 5\<rparr>]"
  let ?e = "[blank_item\<lparr>item_dilution := 0.5\<rparr>, blank_item\<lparr>item_weight := 5\<rparr>]"
  have h: "\<forall>item\<in>set ?f.
      0 \<le> item_weight item \<and> 0 < item_dilution item \<and> item_dilution item \<le> 1"
    by (simp add: blank_item_def)
  have le: "concentrateMass (calculateStats [] ?f) \<le> totalWeight (calculateStats [] ?f)"
    using concentrateMass_le_totalWeight[OF h, of "[]"] by blast
  have he: "\<forall>item\<in>set ?e.
      0 \<le> item_weight item \<and> 0 < item_dilution item \<and> item_dilution item \<le> 1"
    by (simp add: blank_item_def)
  have neat: "\<forall>item\<in>set ?e. item_weight item = 0 \<or> item_dilution item = 1"
    by (simp add: blank_item_def)
  have eq: "concentrateMass (calculateStats [] ?e) = totalWeight (calculateStats [] ?e)"
    using concentrateMass_le_totalWeight[OF he, of "[]"] neat by blast
  have vals: "concentrateMass (calculateStats [] ?f) = 10" "totalWeight (calculateStats [] ?f) = 15"
    by (simp_all add: totalWeight_sum concentrateMass_sum blank_item_def)
  show ?thesis
    using h le eq vals by (simp add: blank_item_def)
qed

text \<open>
  Claim C7 as stated fails twice. A line of negative weight, which the weight field accepts,
  has more concentrate than weight: -5 g against -10 g. And a line without weight at 50 %
  beside a neat line of 10 g gives equality, 10 g and 10 g, although not every item has
  dilution 1 and the formula weighs 10 g.
\<close>

theorem concentrateMass_counterexample:
  "(0 < item_dilution (blank_item\<lparr>item_weight := - 10, item_dilution := 0.5\<rparr>)
    \<and> item_dilution (blank_item\<lparr>item_weight := - 10, item_dilution := 0.5\<rparr>) \<le> 1
    \<and> \<not> concentrateMass (calculateStats [] [blank_item\<lparr>item_weight := - 10, item_dilution := 0.5\<rparr>])
        \<le> totalWeight (calculateStats [] [blank_item\<lparr>item_weight := - 10, item_dilution := 0.5\<rparr>]))
   \<and> (concentrateMass (calculateStats []
          [blank_item\<lparr>item_dilution := 0.5\<rparr>, blank_item\<lparr>item_weight := 10\<rparr>]) = 10
      \<and> totalWeight (calculateStats []
          [blank_item\<lparr>item_dilution := 0.5\<rparr>, blank_item\<lparr>item_weight := 10\<rparr>]) = 10
      \<and> 0 < item_dilution (blank_item\<lparr>item_dilution := 0.5\<rparr>)
      \<and> item_dilution (blank_item\<lparr>item_dilution := 0.5\<rparr>) \<le> 1
      \<and> item_dilution (blank_item\<lparr>item_dilution := 0.5\<rparr>) \<noteq> 1
      \<and> item_dilution (blank_item\<lparr>item_weight := 10\<rparr>) = 1)"
  by (simp add: totalWeight_sum concentrateMass_sum blank_item_def)

section \<open>Properties of the solvent analysis\<close>

lemma solvent_mass_update:
  "solvent_mass (AList.update n v tab) k = (if k = n then fst v else solvent_mass tab k)"
  by (simp add: solvent_mass_def update_conv')

lemma solvent_step_mass:
  "solvent_mass (acc_solventMap (solvent_step acc item)) k =
     solvent_mass (acc_solventMap acc) k + item_booking item k"
proof (cases "solvent_contribution item")
  case (Pair n m)
  then show ?thesis
    by (auto simp: solvent_step_def item_booking_def Let_def solvent_mass_update)
       (simp_all add: solvent_mass_def split: option.splits)
qed

lemma solvent_step_total:
  "acc_totalSolventMass (solvent_step acc item) = acc_totalSolventMass acc + item_added item"
  by (cases "solvent_contribution item") (simp add: solvent_step_def item_added_def Let_def)

lemma solvent_step_distinct:
  "distinct (map fst (acc_solventMap acc)) \<Longrightarrow>
   distinct (map fst (acc_solventMap (solvent_step acc item)))"
  by (cases "solvent_contribution item") (simp add: solvent_step_def Let_def distinct_update)

lemma foldl_solvent_mass:
  "solvent_mass (acc_solventMap (foldl solvent_step acc f)) k =
     solvent_mass (acc_solventMap acc) k + (\<Sum>item\<leftarrow>f. item_booking item k)"
  by (induction f arbitrary: acc) (simp_all add: solvent_step_mass)

lemma foldl_solvent_total:
  "acc_totalSolventMass (foldl solvent_step acc f) =
     acc_totalSolventMass acc + (\<Sum>item\<leftarrow>f. item_added item)"
  by (induction f arbitrary: acc) (simp_all add: solvent_step_total)

lemma foldl_solvent_distinct:
  "distinct (map fst (acc_solventMap acc)) \<Longrightarrow>
   distinct (map fst (acc_solventMap (foldl solvent_step acc f)))"
  by (induction f arbitrary: acc) (simp_all add: solvent_step_distinct)

text \<open>The masses in the map always add up to the running total.\<close>

lemma sum_mass_update:
  "distinct (map fst tab) \<Longrightarrow>
   (\<Sum>e\<leftarrow>AList.update n (solvent_mass tab n + m, v) tab. fst (snd e)) = (\<Sum>e\<leftarrow>tab. fst (snd e)) + m"
proof (induction tab)
  case Nil
  then show ?case by (simp add: solvent_mass_def)
next
  case (Cons a tab)
  show ?case
  proof (cases "fst a = n")
    case True
    then show ?thesis by (cases a) (simp add: solvent_mass_def)
  next
    case False
    then have "solvent_mass (a # tab) n = solvent_mass tab n"
      by (cases a) (simp add: solvent_mass_def)
    then show ?thesis using False Cons by simp
  qed
qed

lemma solvent_step_sum:
  assumes "distinct (map fst (acc_solventMap acc))"
    and "(\<Sum>e\<leftarrow>acc_solventMap acc. fst (snd e)) = acc_totalSolventMass acc"
  shows "(\<Sum>e\<leftarrow>acc_solventMap (solvent_step acc item). fst (snd e))
           = acc_totalSolventMass (solvent_step acc item)"
proof (cases "solvent_contribution item")
  case (Pair n m)
  have cur: "fst (case map_of (acc_solventMap acc) n of None \<Rightarrow> (0, 0) | Some d \<Rightarrow> d)
               = solvent_mass (acc_solventMap acc) n"
    by (simp add: solvent_mass_def split: option.splits)
  show ?thesis
    using Pair assms sum_mass_update[OF assms(1), of n m]
    by (simp add: solvent_step_def Let_def cur)
qed

lemma foldl_solvent_sum:
  "distinct (map fst (acc_solventMap acc)) \<Longrightarrow>
   (\<Sum>e\<leftarrow>acc_solventMap acc. fst (snd e)) = acc_totalSolventMass acc \<Longrightarrow>
   (\<Sum>e\<leftarrow>acc_solventMap (foldl solvent_step acc f). fst (snd e))
     = acc_totalSolventMass (foldl solvent_step acc f)"
  by (induction f arbitrary: acc) (simp_all add: solvent_step_sum solvent_step_distinct)

text \<open>Sorting permutes the rows, so sums over them do not change.\<close>

lemma sum_list_insort_key:
  "(\<Sum>x\<leftarrow>insort_key g a xs. h x) = (h a :: real) + (\<Sum>x\<leftarrow>xs. h x)"
  by (induction xs) simp_all

lemma sum_list_sort_key: "(\<Sum>x\<leftarrow>sort_key g xs. (h x :: real)) = (\<Sum>x\<leftarrow>xs. h x)"
  by (induction xs) (simp_all add: sum_list_insort_key)

lemma breakdown_rows:
  "breakdown (calculateSolventBreakdown f) =
     sort_key (\<lambda>b. - sb_mass b)
       (map (solvent_entry (acc_totalSolventMass (foldl solvent_step solvent_init f))
                           (acc_totalSolventVolume (foldl solvent_step solvent_init f)))
            (acc_solventMap (foldl solvent_step solvent_init f)))"
  by (simp add: calculateSolventBreakdown_def Let_def)

lemma totalSolventMass_fold:
  "totalSolventMass (calculateSolventBreakdown f) = acc_totalSolventMass (foldl solvent_step solvent_init f)"
  by (simp add: calculateSolventBreakdown_def Let_def)

lemma solvent_init_facts:
  "distinct (map fst (acc_solventMap solvent_init))"
  "(\<Sum>e\<leftarrow>acc_solventMap solvent_init. fst (snd e)) = acc_totalSolventMass solvent_init"
  by (simp_all add: solvent_init_def)

lemma breakdown_mass_sum:
  "(\<Sum>b\<leftarrow>breakdown (calculateSolventBreakdown f). sb_mass b) = totalSolventMass (calculateSolventBreakdown f)"
proof -
  have "(\<Sum>b\<leftarrow>breakdown (calculateSolventBreakdown f). sb_mass b)
      = (\<Sum>e\<leftarrow>acc_solventMap (foldl solvent_step solvent_init f). fst (snd e))"
    by (simp add: breakdown_rows sum_list_sort_key solvent_entry_def comp_def)
  then show ?thesis
    using foldl_solvent_sum[OF solvent_init_facts, of f] by (simp add: totalSolventMass_fold)
qed

lemma sum_list_scale: "(\<Sum>x\<leftarrow>xs. h x / t * 100) = (\<Sum>x\<leftarrow>xs. (h x :: real)) / t * 100"
  by (induction xs) (simp_all add: add_divide_distrib distrib_right)

lemma breakdown_massPct_sum:
  assumes "totalSolventMass (calculateSolventBreakdown f) > 0"
  shows "(\<Sum>b\<leftarrow>breakdown (calculateSolventBreakdown f). sb_massPct b) = 100"
proof -
  let ?acc = "foldl solvent_step solvent_init f"
  have pos: "acc_totalSolventMass ?acc > 0" using assms by (simp add: totalSolventMass_fold)
  have "(\<Sum>b\<leftarrow>breakdown (calculateSolventBreakdown f). sb_massPct b)
      = (\<Sum>e\<leftarrow>acc_solventMap ?acc. fst (snd e) / acc_totalSolventMass ?acc * 100)"
    using pos by (simp add: breakdown_rows sum_list_sort_key solvent_entry_def comp_def)
  also have "\<dots> = (\<Sum>e\<leftarrow>acc_solventMap ?acc. fst (snd e)) / acc_totalSolventMass ?acc * 100"
    by (rule sum_list_scale)
  also have "\<dots> = 100"
    using foldl_solvent_sum[OF solvent_init_facts, of f] pos by simp
  finally show ?thesis .
qed

text \<open>
  Claim C9. For every formula the masses of the breakdown rows add up to \<open>totalSolventMass\<close>,
  and when \<open>totalSolventMass\<close> is positive the \<open>massPct\<close> fields add up to 100. In exact
  arithmetic both sums are hit exactly, which is within every tolerance.
\<close>

theorem solvent_breakdown_sums:
  "(\<Sum>b\<leftarrow>breakdown (calculateSolventBreakdown f). sb_mass b) = totalSolventMass (calculateSolventBreakdown f)
   \<and> (totalSolventMass (calculateSolventBreakdown f) > 0 \<longrightarrow>
        (\<Sum>b\<leftarrow>breakdown (calculateSolventBreakdown f). sb_massPct b) = 100)"
  using breakdown_mass_sum breakdown_massPct_sum by blast

text \<open>
  An instance: 10 g at 50 % in the default carrier and 15 g of DPG as a solvent line give
  20 g of solvent, 75 % of it DPG and 25 % ethanol.
\<close>

theorem solvent_breakdown_sums_witness:
  "totalSolventMass (calculateSolventBreakdown
      [blank_item\<lparr>item_weight := 10, item_dilution := 0.5\<rparr>,
       blank_item\<lparr>item_name := ''DPG'', item_family := ''Solvent'', item_weight := 15\<rparr>]) = 20
   \<and> (\<Sum>b\<leftarrow>breakdown (calculateSolventBreakdown
      [blank_item\<lparr>item_weight := 10, item_dilution := 0.5\<rparr>,
       blank_item\<lparr>item_name := ''DPG'', item_family := ''Solvent'', item_weight := 15\<rparr>]). sb_massPct b) = 100
   \<and> map sb_massPct (breakdown (calculateSolventBreakdown
      [blank_item\<lparr>item_weight := 10, item_dilution := 0.5\<rparr>,
       blank_item\<lparr>item_name := ''DPG'', item_family := ''Solvent'', item_weight := 15\<rparr>])) = [75, 25]"
proof -
  let ?f = "[blank_item\<lparr>item_weight := 10, item_dilution := 0.5\<rparr>,
       blank_item\<lparr>item_name := ''DPG'', item_family := ''Solvent'', item_weight := 15\<rparr>]"
  have t: "totalSolventMass (calculateSolventBreakdown ?f) = 20"
    by code_simp
  have p: "map sb_massPct (breakdown (calculateSolventBreakdown ?f)) = [75, 25]"
    by code_simp
  have "totalSolventMass (calculateSolventBreakdown ?f) > 0" using t by simp
  then have "(\<Sum>b\<leftarrow>breakdown (calculateSolventBreakdown ?f). sb_massPct b) = 100"
    using solvent_breakdown_sums[of ?f] by blast
  then show ?thesis using t p by blast
qed

subsection \<open>The legacy ethanol mass\<close>

lemma find_first_unique:
  "inj_on g (set xs) \<Longrightarrow> e \<in> set xs \<Longrightarrow> g e = k \<Longrightarrow> find_first (\<lambda>b. g b = k) xs = Some e"
proof (induction xs)
  case Nil
  then show ?case by simp
next
  case (Cons a xs)
  show ?case
  proof (cases "g a = k")
    case True
    then have "g a = g e" using Cons.prems(3) by simp
    then have "a = e"
      by (rule inj_onD[OF Cons.prems(1)]) (use Cons.prems(2) in simp_all)
    then show ?thesis using True by simp
  next
    case False
    then have "e \<in> set xs" using Cons.prems by auto
    moreover have "inj_on g (set xs)" using Cons.prems(1) by (simp add: inj_on_def)
    ultimately show ?thesis using Cons.IH Cons.prems(3) False by simp
  qed
qed

lemma distinct_map_sort_key: "distinct (map h xs) \<Longrightarrow> distinct (map h (sort_key g xs))"
  by (simp add: distinct_map)

lemma breakdown_names_distinct: "distinct (map sb_name (breakdown (calculateSolventBreakdown f)))"
proof -
  let ?acc = "foldl solvent_step solvent_init f"
  have "distinct (map fst (acc_solventMap ?acc))"
    by (rule foldl_solvent_distinct) (simp add: solvent_init_def)
  then have "distinct (map sb_name (map (solvent_entry (acc_totalSolventMass ?acc)
      (acc_totalSolventVolume ?acc)) (acc_solventMap ?acc)))"
    by (simp add: solvent_entry_def comp_def)
  then show ?thesis
    unfolding breakdown_rows by (rule distinct_map_sort_key)
qed

lemma row_mass_unique:
  "distinct (map sb_name rows) \<Longrightarrow> e \<in> set rows \<Longrightarrow> row_mass rows (sb_name e) = sb_mass e"
  using find_first_unique[of sb_name rows e "sb_name e"]
  by (simp add: row_mass_def distinct_map)

lemma row_mass_absent: "\<forall>e\<in>set rows. sb_name e \<noteq> k \<Longrightarrow> row_mass rows k = 0"
  using find_first_None_iff[of "\<lambda>b. sb_name b = k" rows] by (simp add: row_mass_def)

lemma ethanolMass_row_mass:
  "ethanolMass (calculateStats I f) = row_mass (breakdown (calculateSolventBreakdown f)) ''Ethanol''"
  by (simp add: calculateStats_def Let_def row_mass_def)

lemma solventAnalysis_embedded: "solventAnalysis (calculateStats I f) = calculateSolventBreakdown f"
  by (simp add: calculateStats_def Let_def)

text \<open>
  Claim C10. The solvent analysis embedded in the statistics is the one of the formula; its
  rows have pairwise different names; \<open>ethanolMass\<close> is the mass of the row named
  \<open>Ethanol\<close>, and 0 when no row has that name.
\<close>

theorem ethanolMass_legacy:
  "solventAnalysis (calculateStats I f) = calculateSolventBreakdown f
   \<and> distinct (map sb_name (breakdown (solventAnalysis (calculateStats I f))))
   \<and> (\<forall>e\<in>set (breakdown (solventAnalysis (calculateStats I f))).
         sb_name e = ''Ethanol'' \<longrightarrow> ethanolMass (calculateStats I f) = sb_mass e)
   \<and> ((\<forall>e\<in>set (breakdown (solventAnalysis (calculateStats I f))). sb_name e \<noteq> ''Ethanol'')
         \<longrightarrow> ethanolMass (calculateStats I f) = 0)"
proof -
  let ?rows = "breakdown (calculateSolventBreakdown f)"
  have d: "distinct (map sb_name ?rows)" by (rule breakdown_names_distinct)
  have a: "\<forall>e\<in>set ?rows. sb_name e = ''Ethanol'' \<longrightarrow> row_mass ?rows ''Ethanol'' = sb_mass e"
    using row_mass_unique[OF d] by metis
  have b: "(\<forall>e\<in>set ?rows. sb_name e \<noteq> ''Ethanol'') \<longrightarrow> row_mass ?rows ''Ethanol'' = 0"
    using row_mass_absent by blast
  show ?thesis
    using d a b by (simp only: solventAnalysis_embedded ethanolMass_row_mass simp_thms)
qed

text \<open>
  Instances: with 10 g at 50 % in the default carrier the ethanol row and the legacy field
  both hold 5 g; the empty formula has no row and the field is 0.
\<close>

theorem ethanolMass_legacy_witness:
  "\<lparr>sb_name = ''Ethanol'', sb_mass = 5, sb_volume = 5 / 0.789, sb_massPct = 100, sb_volPct = 100\<rparr>
     \<in> set (breakdown (solventAnalysis (calculateStats []
            [blank_item\<lparr>item_weight := 10, item_dilution := 0.5\<rparr>])))
   \<and> ethanolMass (calculateStats [] [blank_item\<lparr>item_weight := 10, item_dilution := 0.5\<rparr>]) = 5
   \<and> breakdown (solventAnalysis (calculateStats [] [])) = []
   \<and> ethanolMass (calculateStats [] []) = 0"
proof -
  let ?f = "[blank_item\<lparr>item_weight := 10, item_dilution := 0.5\<rparr>]"
  let ?e = "\<lparr>sb_name = ''Ethanol'', sb_mass = 5, sb_volume = 5 / 0.789, sb_massPct = 100,
             sb_volPct = 100\<rparr>"
  have m: "?e \<in> set (breakdown (solventAnalysis (calculateStats [] ?f)))"
    by code_simp
  have "sb_name ?e = ''Ethanol'' \<longrightarrow> ethanolMass (calculateStats [] ?f) = sb_mass ?e"
    using ethanolMass_legacy[of "[]" ?f] m by blast
  then have 1: "ethanolMass (calculateStats [] ?f) = 5" by simp
  have n: "\<forall>e\<in>set (breakdown (solventAnalysis (calculateStats [] []))). sb_name e \<noteq> ''Ethanol''"
    by (simp add: calculateStats_Nil calculateSolventBreakdown_Nil)
  then have 2: "ethanolMass (calculateStats [] []) = 0"
    using ethanolMass_legacy[of "[]" "[]"] by blast
  have e: "breakdown (solventAnalysis (calculateStats [] [])) = []"
    by (simp add: calculateStats_Nil calculateSolventBreakdown_Nil)
  show ?thesis using m 1 e 2 by blast
qed

subsection \<open>What one item contributes\<close>

lemma row_mass_breakdown:
  "row_mass (breakdown (calculateSolventBreakdown f)) k
     = solvent_mass (acc_solventMap (foldl solvent_step solvent_init f)) k"
proof -
  let ?acc = "foldl solvent_step solvent_init f"
  let ?tab = "acc_solventMap ?acc"
  let ?mk = "solvent_entry (acc_totalSolventMass ?acc) (acc_totalSolventVolume ?acc)"
  let ?rows = "breakdown (calculateSolventBreakdown f)"
  have rows: "set ?rows = ?mk ` set ?tab" by (simp add: breakdown_rows)
  have d: "distinct (map sb_name ?rows)" by (rule breakdown_names_distinct)
  show ?thesis
  proof (cases "map_of ?tab k")
    case None
    then have "k \<notin> fst ` set ?tab" by (simp add: map_of_eq_None_iff)
    then have "\<forall>e\<in>set ?rows. sb_name e \<noteq> k"
      unfolding rows by (auto simp: solvent_entry_def)
    then have "row_mass ?rows k = 0" by (rule row_mass_absent)
    then show ?thesis using None by (simp add: solvent_mass_def)
  next
    case (Some v)
    then have "(k, v) \<in> set ?tab" by (rule map_of_SomeD)
    then have "?mk (k, v) \<in> set ?rows" unfolding rows by (rule imageI)
    from row_mass_unique[OF d this] have "row_mass ?rows k = fst v"
      by (simp add: solvent_entry_def)
    then show ?thesis using Some by (simp add: solvent_mass_def)
  qed
qed

lemma totalSolventMass_closed:
  "totalSolventMass (calculateSolventBreakdown f) = (\<Sum>item\<leftarrow>f. item_added item)"
  by (simp add: totalSolventMass_fold foldl_solvent_total solvent_init_def)

lemma row_mass_closed:
  "row_mass (breakdown (calculateSolventBreakdown f)) k = (\<Sum>item\<leftarrow>f. item_booking item k)"
proof -
  have "solvent_mass (acc_solventMap solvent_init) k = 0"
    by (simp add: solvent_init_def solvent_mass_def)
  then show ?thesis by (simp add: row_mass_breakdown foldl_solvent_mass)
qed

lemma contribution_diluted:
  "item_dilution item < 1 \<Longrightarrow> item_dilution item \<noteq> 0 \<Longrightarrow>
   solvent_contribution item =
     (if item_solvent item = [] \<or> item_solvent item = ''None'' then ''Ethanol'' else item_solvent item,
      item_weight item * (1 - item_dilution item))"
  by (simp add: solvent_contribution_def or_num_def or_str_def Let_def)

lemma contribution_neat:
  "item_dilution item = 1 \<or> item_dilution item = 0 \<Longrightarrow>
   solvent_contribution item =
     (if item_family item = ''Solvent'' \<or> item_note item = ''Solvent''
      then (direct_solvent_name (item_name item), item_weight item) else (''None'', 0))"
  by (auto simp: solvent_contribution_def or_num_def Let_def)

lemma direct_solvent_name_not_None: "nm \<noteq> ''None'' \<Longrightarrow> direct_solvent_name nm \<noteq> ''None''"
  by (simp add: direct_solvent_name_def Let_def)

lemma diluted_added:
  assumes "item_dilution item < 1" "item_dilution item \<noteq> 0" "0 \<le> item_weight item"
  shows "item_added item = item_weight item * (1 - item_dilution item)"
    and "item_booking item k =
      (if k = (if item_solvent item = [] \<or> item_solvent item = ''None'' then ''Ethanol''
               else item_solvent item)
       then item_weight item * (1 - item_dilution item) else 0)"
proof -
  have nn: "0 \<le> item_weight item * (1 - item_dilution item)"
    using assms by simp
  show "item_added item = item_weight item * (1 - item_dilution item)"
    using nn by (auto simp: item_added_def contribution_diluted[OF assms(1,2)])
  show "item_booking item k =
      (if k = (if item_solvent item = [] \<or> item_solvent item = ''None'' then ''Ethanol''
               else item_solvent item)
       then item_weight item * (1 - item_dilution item) else 0)"
    using nn by (auto simp: item_booking_def contribution_diluted[OF assms(1,2)])
qed

lemma neat_added:
  assumes "item_dilution item = 1 \<or> item_dilution item = 0" "0 \<le> item_weight item"
    "item_name item \<noteq> ''None''"
  shows "item_added item =
      (if item_family item = ''Solvent'' \<or> item_note item = ''Solvent'' then item_weight item else 0)"
    and "item_booking item k =
      (if (item_family item = ''Solvent'' \<or> item_note item = ''Solvent'')
          \<and> k = direct_solvent_name (item_name item)
       then item_weight item else 0)"
  using assms(2) direct_solvent_name_not_None[OF assms(3)]
  by (auto simp: item_added_def item_booking_def contribution_neat[OF assms(1)])

lemma contribution_cong:
  "solvent_contribution a = solvent_contribution b \<Longrightarrow>
   calculateSolventBreakdown (f1 @ a # f2) = calculateSolventBreakdown (f1 @ b # f2)"
  by (simp add: calculateSolventBreakdown_def solvent_step_def)

lemma diluted_ignores_tags:
  "item_dilution item < 1 \<Longrightarrow> item_dilution item \<noteq> 0 \<Longrightarrow>
   solvent_contribution (item\<lparr>item_family := fam, item_note := nt, item_name := nm\<rparr>)
     = solvent_contribution item"
  by (simp add: solvent_contribution_def or_num_def or_str_def Let_def)

text \<open>
  Claim C5, as amended. Take an item at any place in a formula and compare the analysis with
  the one of the formula without it.

  An item with a dilution below 1 other than 0, and a weight of at least 0, adds
  \<open>weight * (1 - dilution)\<close> grams to the total and to the row of its declared carrier
  (\<open>Ethanol\<close> when the name is empty or \<open>None\<close>), and to no other row; its family, note and
  name do not matter, so the direct-solvent branch plays no part.

  An item with dilution 1, or with dilution 0, which the source reads as 1, a weight of at
  least 0 and a name other than the literal \<open>None\<close> adds its full weight, under its normalised
  name, when its family or note is \<open>Solvent\<close>, and nothing otherwise.
\<close>

theorem solvent_contribution_branches:
  "(item_dilution item < 1 \<and> item_dilution item \<noteq> 0 \<and> 0 \<le> item_weight item \<longrightarrow>
      totalSolventMass (calculateSolventBreakdown (f1 @ item # f2))
        = totalSolventMass (calculateSolventBreakdown (f1 @ f2))
          + item_weight item * (1 - item_dilution item)
      \<and> (\<forall>k. row_mass (breakdown (calculateSolventBreakdown (f1 @ item # f2))) k
            = row_mass (breakdown (calculateSolventBreakdown (f1 @ f2))) k
              + (if k = (if item_solvent item = [] \<or> item_solvent item = ''None'' then ''Ethanol''
                         else item_solvent item)
                 then item_weight item * (1 - item_dilution item) else 0))
      \<and> calculateSolventBreakdown
            (f1 @ item\<lparr>item_family := fam, item_note := nt, item_name := nm\<rparr> # f2)
          = calculateSolventBreakdown (f1 @ item # f2))
   \<and> ((item_dilution item = 1 \<or> item_dilution item = 0) \<and> 0 \<le> item_weight item
        \<and> item_name item \<noteq> ''None'' \<longrightarrow>
      totalSolventMass (calculateSolventBreakdown (f1 @ item # f2))
        = totalSolventMass (calculateSolventBreakdown (f1 @ f2))
          + (if item_family item = ''Solvent'' \<or> item_note item = ''Solvent''
             then item_weight item else 0)
      \<and> (\<forall>k. row_mass (breakdown (calculateSolventBreakdown (f1 @ item # f2))) k
            = row_mass (breakdown (calculateSolventBreakdown (f1 @ f2))) k
              + (if (item_family item = ''Solvent'' \<or> item_note item = ''Solvent'')
                    \<and> k = direct_solvent_name (item_name item)
                 then item_weight item else 0)))"
proof (intro conjI impI allI)
  assume a: "item_dilution item < 1 \<and> item_dilution item \<noteq> 0 \<and> 0 \<le> item_weight item"
  then have a1: "item_dilution item < 1" and a2: "item_dilution item \<noteq> 0"
    and a3: "0 \<le> item_weight item" by simp_all
  show "totalSolventMass (calculateSolventBreakdown (f1 @ item # f2))
        = totalSolventMass (calculateSolventBreakdown (f1 @ f2))
          + item_weight item * (1 - item_dilution item)"
    by (simp add: totalSolventMass_closed diluted_added(1)[OF a1 a2 a3])
  show "row_mass (breakdown (calculateSolventBreakdown (f1 @ item # f2))) k
            = row_mass (breakdown (calculateSolventBreakdown (f1 @ f2))) k
              + (if k = (if item_solvent item = [] \<or> item_solvent item = ''None'' then ''Ethanol''
                         else item_solvent item)
                 then item_weight item * (1 - item_dilution item) else 0)" for k
    by (simp add: row_mass_closed diluted_added(2)[OF a1 a2 a3])
  show "calculateSolventBreakdown
            (f1 @ item\<lparr>item_family := fam, item_note := nt, item_name := nm\<rparr> # f2)
          = calculateSolventBreakdown (f1 @ item # f2)"
    using diluted_ignores_tags[OF a1 a2] by (rule contribution_cong)
next
  assume b: "(item_dilution item = 1 \<or> item_dilution item = 0) \<and> 0 \<le> item_weight item
        \<and> item_name item \<noteq> ''None''"
  then have b1: "item_dilution item = 1 \<or> item_dilution item = 0"
    and b2: "0 \<le> item_weight item" and b3: "item_name item \<noteq> ''None''" by simp_all
  show "totalSolventMass (calculateSolventBreakdown (f1 @ item # f2))
        = totalSolventMass (calculateSolventBreakdown (f1 @ f2))
          + (if item_family item = ''Solvent'' \<or> item_note item = ''Solvent''
             then item_weight item else 0)"
    by (simp add: totalSolventMass_closed neat_added(1)[OF b1 b2 b3])
  show "row_mass (breakdown (calculateSolventBreakdown (f1 @ item # f2))) k
            = row_mass (breakdown (calculateSolventBreakdown (f1 @ f2))) k
              + (if (item_family item = ''Solvent'' \<or> item_note item = ''Solvent'')
                    \<and> k = direct_solvent_name (item_name item)
                 then item_weight item else 0)" for k
    by (simp add: row_mass_closed neat_added(2)[OF b1 b2 b3])
qed

text \<open>
  Instances: a line tagged \<open>Solvent\<close> at 50 % in DPG adds its 5 g of carrier to the DPG row,
  and a neat line of 15 g named and tagged as alcohol adds 15 g to the ethanol row.
\<close>

theorem solvent_contribution_branches_witness:
  "totalSolventMass (calculateSolventBreakdown
     [blank_item\<lparr>item_name := ''Ethanol'', item_family := ''Solvent'', item_weight := 10,
                  item_dilution := 0.5, item_solvent := ''DPG''\<rparr>]) = 5
   \<and> row_mass (breakdown (calculateSolventBreakdown
     [blank_item\<lparr>item_name := ''Ethanol'', item_family := ''Solvent'', item_weight := 10,
                  item_dilution := 0.5, item_solvent := ''DPG''\<rparr>])) ''DPG'' = 5
   \<and> row_mass (breakdown (calculateSolventBreakdown
     [blank_item\<lparr>item_name := ''Ethanol'', item_family := ''Solvent'', item_weight := 10,
                  item_dilution := 0.5, item_solvent := ''DPG''\<rparr>])) ''Ethanol'' = 0
   \<and> totalSolventMass (calculateSolventBreakdown
     [blank_item\<lparr>item_name := ''Perfumers Alcohol'', item_note := ''Solvent'', item_weight := 15\<rparr>]) = 15
   \<and> row_mass (breakdown (calculateSolventBreakdown
     [blank_item\<lparr>item_name := ''Perfumers Alcohol'', item_note := ''Solvent'', item_weight := 15\<rparr>]))
       ''Ethanol'' = 15"
proof -
  let ?a = "blank_item\<lparr>item_name := ''Ethanol'', item_family := ''Solvent'', item_weight := 10,
                  item_dilution := 0.5, item_solvent := ''DPG''\<rparr>"
  let ?b = "blank_item\<lparr>item_name := ''Perfumers Alcohol'', item_note := ''Solvent'', item_weight := 15\<rparr>"
  have ha: "item_dilution ?a < 1 \<and> item_dilution ?a \<noteq> 0 \<and> 0 \<le> item_weight ?a"
    by (simp add: blank_item_def)
  have hb: "(item_dilution ?b = 1 \<or> item_dilution ?b = 0) \<and> 0 \<le> item_weight ?b
        \<and> item_name ?b \<noteq> ''None''"
    by (simp add: blank_item_def)
  have nb: "direct_solvent_name (item_name ?b) = ''Ethanol''"
    by code_simp
  have empty: "totalSolventMass (calculateSolventBreakdown []) = 0"
    "\<And>k. row_mass (breakdown (calculateSolventBreakdown [])) k = 0"
    by (simp_all add: calculateSolventBreakdown_Nil row_mass_def)
  note A = solvent_contribution_branches[of ?a "[]" "[]" "''Floral''" "''Top''" "''X''",
      THEN conjunct1, rule_format, OF ha]
  note B = solvent_contribution_branches[of ?b "[]" "[]" "''Floral''" "''Top''" "''X''",
      THEN conjunct2, rule_format, OF hb]
  have 1: "totalSolventMass (calculateSolventBreakdown [?a]) = 5"
    using A[THEN conjunct1] by (simp add: empty blank_item_def)
  have 2: "row_mass (breakdown (calculateSolventBreakdown [?a])) ''DPG'' = 5"
    using A[THEN conjunct2, THEN conjunct1, rule_format, of "''DPG''"]
    by (simp add: empty blank_item_def)
  have 3: "row_mass (breakdown (calculateSolventBreakdown [?a])) ''Ethanol'' = 0"
    using A[THEN conjunct2, THEN conjunct1, rule_format, of "''Ethanol''"]
    by (simp add: empty blank_item_def)
  have 4: "totalSolventMass (calculateSolventBreakdown [?b]) = 15"
    using B[THEN conjunct1] by (simp add: empty blank_item_def)
  have 5: "row_mass (breakdown (calculateSolventBreakdown [?b])) ''Ethanol'' = 15"
    using B[THEN conjunct2, rule_format, of "''Ethanol''"] nb
    by (simp add: empty blank_item_def)
  show ?thesis using 1 2 3 4 5 by blast
qed

text \<open>
  Claim C5 as stated fails for a dilution of 0, which is below 1. A floral line of 10 g with
  dilution 0 and carrier DPG adds no solvent at all, where the claim has 10 g under DPG. A
  line of 10 g tagged \<open>Solvent\<close> and named DPG with dilution 0 and carrier Ethanol is booked
  by the direct-solvent branch: 10 g under DPG, none under Ethanol.
\<close>

theorem solvent_dilution_zero_counterexample:
  "item_dilution (blank_item\<lparr>item_weight := 10, item_dilution := 0, item_solvent := ''DPG''\<rparr>) < 1
   \<and> item_weight (blank_item\<lparr>item_weight := 10, item_dilution := 0, item_solvent := ''DPG''\<rparr>)
       * (1 - item_dilution (blank_item\<lparr>item_weight := 10, item_dilution := 0, item_solvent := ''DPG''\<rparr>)) = 10
   \<and> totalSolventMass (calculateSolventBreakdown
        [blank_item\<lparr>item_weight := 10, item_dilution := 0, item_solvent := ''DPG''\<rparr>]) = 0
   \<and> breakdown (calculateSolventBreakdown
        [blank_item\<lparr>item_weight := 10, item_dilution := 0, item_solvent := ''DPG''\<rparr>]) = []
   \<and> item_dilution (blank_item\<lparr>item_name := ''DPG'', item_family := ''Solvent'', item_weight := 10,
                        item_dilution := 0, item_solvent := ''Ethanol''\<rparr>) < 1
   \<and> map (\<lambda>b. (sb_name b, sb_mass b)) (breakdown (calculateSolventBreakdown
        [blank_item\<lparr>item_name := ''DPG'', item_family := ''Solvent'', item_weight := 10,
                     item_dilution := 0, item_solvent := ''Ethanol''\<rparr>])) = [(''DPG'', 10)]"
  by code_simp

section \<open>Properties of the compliance check\<close>

lemma or_num_cas_mass: "or_num (map_of tab k) 0 = cas_mass tab k"
  by (simp add: or_num_def cas_mass_def split: option.splits)

lemma cas_mass_add_mass:
  "cas_mass (add_mass k m tab) k' = cas_mass tab k' + (if k' = k then m else 0)"
  by (simp add: add_mass_def or_num_cas_mass cas_mass_def update_conv')

lemma keys_add_mass: "fst ` set (add_mass k m tab) = insert k (fst ` set tab)"
  by (simp add: add_mass_def dom_update)

lemma direct_step_mass:
  "cas_mass (massByCas (direct_step item rm acc)) k =
     cas_mass (massByCas acc) k
       + (if trim (item_cas item) \<noteq> [] \<and> trim (item_cas item) \<noteq> ''Mixture''
             \<and> k = trim (item_cas item) then rm else 0)"
  by (simp add: direct_step_def Let_def cas_mass_add_mass)

lemma constituents_mass:
  "cas_mass (massByCas (foldl (constituent_step item rm) acc cs)) k =
     cas_mass (massByCas acc) k + (\<Sum>c\<leftarrow>cs. if nc_cas c = k then rm * nc_percent c else 0)"
proof (induction cs arbitrary: acc)
  case Nil
  then show ?case by simp
next
  case (Cons c cs)
  have "cas_mass (massByCas (constituent_step item rm acc c)) k =
          cas_mass (massByCas acc) k + (if nc_cas c = k then rm * nc_percent c else 0)"
    by (simp add: constituent_step_def Let_def cas_mass_add_mass)
  then show ?case using Cons.IH[of "constituent_step item rm acc c"] by simp
qed

lemma ncs_step_constituents:
  "ncs_step item rm acc = foldl (constituent_step item rm) acc (item_constituents item)"
  by (simp add: ncs_step_def item_constituents_def split: option.splits)

lemma compliance_step_mass:
  "cas_mass (massByCas (compliance_step acc item)) k =
     cas_mass (massByCas acc) k
       + (if trim (item_cas item) \<noteq> [] \<and> trim (item_cas item) \<noteq> ''Mixture''
             \<and> k = trim (item_cas item) then item_weight item * item_dilution item else 0)
       + (\<Sum>c\<leftarrow>item_constituents item.
            if nc_cas c = k then item_weight item * item_dilution item * nc_percent c else 0)"
  by (simp add: compliance_step_def Let_def ncs_step_constituents constituents_mass direct_step_mass)

text \<open>The keys that \<open>Object.keys\<close> lists are the keys of the table.\<close>

lemma set_object_keys: "set (object_keys tab) = fst ` set tab"
  by (auto simp: object_keys_def)

lemma map_of_key: "k \<in> fst ` set tab \<Longrightarrow> map_of tab k = Some (cas_mass tab k)"
  by (cases "map_of tab k") (simp_all add: cas_mass_def map_of_eq_None_iff)

lemma compliance_rows_cas: "r \<in> set (compliance_rows lib acc tbw cat k) \<Longrightarrow> cr_cas r = k"
  by (auto simp: compliance_rows_def Let_def split: option.splits)

lemma compliance_rows_Some:
  "lib k = Some entry \<Longrightarrow> k \<in> fst ` set (massByCas acc) \<Longrightarrow>
   compliance_rows lib acc tbw cat k =
     [\<lparr>cr_cas = k, cr_name = ifra_name entry, cr_totalMass = cas_mass (massByCas acc) k,
       cr_concentration = cas_mass (massByCas acc) k / tbw,
       cr_limit = limitPercent entry cat / 100,
       cr_isCompliant = (cas_mass (massByCas acc) k / tbw \<le> limitPercent entry cat / 100),
       cr_sources = (case map_of (sourcesByCas acc) k of None \<Rightarrow> [] | Some xs \<Rightarrow> xs),
       cr_reason = Some (if ifra_type entry = ''prohibited'' then ''Prohibited''
                         else ''Restriction'')\<rparr>]"
  by (simp add: compliance_rows_def Let_def map_of_key)

lemma set_checkCompliance:
  "tbw \<noteq> 0 \<Longrightarrow>
   set (checkCompliance lib f tbw cat) =
     (\<Union>k\<in>fst ` set (massByCas (foldl compliance_step compliance_init f)).
        set (compliance_rows lib (foldl compliance_step compliance_init f) tbw cat k))"
  by (simp add: checkCompliance_def Let_def set_object_keys)

lemma rows_of_cas:
  assumes "tbw \<noteq> 0" and "k \<in> fst ` set (massByCas (foldl compliance_step compliance_init f))"
  shows "{r \<in> set (checkCompliance lib f tbw cat). cr_cas r = k}
           = set (compliance_rows lib (foldl compliance_step compliance_init f) tbw cat k)"
proof (intro set_eqI iffI)
  fix r
  assume "r \<in> {r \<in> set (checkCompliance lib f tbw cat). cr_cas r = k}"
  then obtain k' where r: "r \<in> set (compliance_rows lib (foldl compliance_step compliance_init f)
      tbw cat k')" and k: "cr_cas r = k"
    using set_checkCompliance[OF assms(1), of lib f cat] by auto
  from compliance_rows_cas[OF r] k have "k' = k" by simp
  then show "r \<in> set (compliance_rows lib (foldl compliance_step compliance_init f) tbw cat k)"
    using r by simp
next
  fix r
  assume r: "r \<in> set (compliance_rows lib (foldl compliance_step compliance_init f) tbw cat k)"
  then have "r \<in> set (checkCompliance lib f tbw cat)"
    using set_checkCompliance[OF assms(1), of lib f cat] assms(2) by blast
  then show "r \<in> {r \<in> set (checkCompliance lib f tbw cat). cr_cas r = k}"
    using compliance_rows_cas[OF r] by simp
qed

lemma limitPercent_cases:
  "(\<forall>tbl v. ifra_limits entry = Some tbl \<and> tbl cat = Some v \<longrightarrow> limitPercent entry cat = v)
   \<and> ((\<forall>tbl. ifra_limits entry = Some tbl \<longrightarrow> tbl cat = None) \<and> ifra_type entry = ''prohibited''
        \<longrightarrow> limitPercent entry cat = 0)
   \<and> ((\<forall>tbl. ifra_limits entry = Some tbl \<longrightarrow> tbl cat = None) \<and> ifra_type entry \<noteq> ''prohibited''
        \<longrightarrow> limitPercent entry cat = 100)"
  by (auto simp: limitPercent_def split: option.splits)

lemma the_row:
  assumes "tbw \<noteq> 0" and "k \<in> fst ` set (massByCas (foldl compliance_step compliance_init f))"
    and "lib k = Some entry"
  shows "{r \<in> set (checkCompliance lib f tbw cat). cr_cas r = k} =
     {\<lparr>cr_cas = k, cr_name = ifra_name entry,
       cr_totalMass = cas_mass (massByCas (foldl compliance_step compliance_init f)) k,
       cr_concentration = cas_mass (massByCas (foldl compliance_step compliance_init f)) k / tbw,
       cr_limit = limitPercent entry cat / 100,
       cr_isCompliant = (cas_mass (massByCas (foldl compliance_step compliance_init f)) k / tbw
                           \<le> limitPercent entry cat / 100),
       cr_sources = (case map_of (sourcesByCas (foldl compliance_step compliance_init f)) k of
                       None \<Rightarrow> [] | Some xs \<Rightarrow> xs),
       cr_reason = Some (if ifra_type entry = ''prohibited'' then ''Prohibited''
                         else ''Restriction'')\<rparr>}"
  using compliance_rows_Some[of lib k entry "foldl compliance_step compliance_init f" tbw cat] assms
  by (simp add: rows_of_cas[OF assms(1,2)])

text \<open>Every CAS number is a key of the table once, so the report has its row once.\<close>

lemma add_mass_distinct: "distinct (map fst tab) \<Longrightarrow> distinct (map fst (add_mass k m tab))"
  by (simp add: add_mass_def distinct_update)

lemma constituents_distinct:
  "distinct (map fst (massByCas acc)) \<Longrightarrow>
   distinct (map fst (massByCas (foldl (constituent_step item rm) acc cs)))"
  by (induction cs arbitrary: acc) (simp_all add: constituent_step_def Let_def add_mass_distinct)

lemma compliance_step_distinct:
  "distinct (map fst (massByCas acc)) \<Longrightarrow> distinct (map fst (massByCas (compliance_step acc item)))"
  by (simp add: compliance_step_def Let_def ncs_step_constituents constituents_distinct
        direct_step_def add_mass_distinct)

lemma compliance_keys_distinct:
  "distinct (map fst (massByCas acc)) \<Longrightarrow>
   distinct (map fst (massByCas (foldl compliance_step acc f)))"
  by (induction f arbitrary: acc) (simp_all add: compliance_step_distinct)

lemma distinct_object_keys: "distinct (map fst tab) \<Longrightarrow> distinct (object_keys tab)"
  by (auto simp: object_keys_def)

lemma filter_concat_rows:
  assumes "distinct ks" and "\<And>k' r. r \<in> set (F k') \<Longrightarrow> cr_cas r = k'"
  shows "filter (\<lambda>r. cr_cas r = k) (concat (map F ks)) = (if k \<in> set ks then F k else [])"
  using assms(1)
proof (induction ks)
  case Nil
  then show ?case by simp
next
  case (Cons a ks)
  have own: "filter (\<lambda>r. cr_cas r = k) (F a) = (if a = k then F a else [])"
    using assms(2)[of _ a] by (auto simp: filter_empty_conv intro: filter_True)
  show ?case using Cons own by auto
qed

lemma rows_of_cas_list:
  assumes "tbw \<noteq> 0" and "k \<in> fst ` set (massByCas (foldl compliance_step compliance_init f))"
  shows "length (filter (\<lambda>r. cr_cas r = k) (checkCompliance lib f tbw cat))
           = length (compliance_rows lib (foldl compliance_step compliance_init f) tbw cat k)"
proof -
  let ?acc = "foldl compliance_step compliance_init f"
  have "distinct (map fst (massByCas ?acc))"
    by (rule compliance_keys_distinct) (simp add: compliance_init_def)
  then have d: "distinct (object_keys (massByCas ?acc))" by (rule distinct_object_keys)
  have "filter (\<lambda>r. cr_cas r = k)
          (concat (map (compliance_rows lib ?acc tbw cat) (object_keys (massByCas ?acc))))
        = compliance_rows lib ?acc tbw cat k"
    using filter_concat_rows[OF d, of "compliance_rows lib ?acc tbw cat" k] assms(2)
    by (simp add: compliance_rows_cas set_object_keys)
  then show ?thesis
    using assms(1) by (simp add: checkCompliance_def Let_def filter_sort)
qed

text \<open>
  Claim C6. With a total batch weight of 0 the check returns the empty list, for every
  formula, library and category; the empty formula has total weight 0 and so an empty report.
\<close>

theorem checkCompliance_zero_weight:
  "checkCompliance lib f 0 cat = []
   \<and> totalWeight (calculateStats I []) = 0
   \<and> checkCompliance lib [] (totalWeight (calculateStats I [])) cat = []"
  by (simp add: checkCompliance_def totalWeight_sum)

text \<open>
  Claim C1, as amended. Let the total batch weight be other than 0, and let \<open>k\<close> be a CAS
  number with accumulated mass and with an entry in the limit library. Then the report, as a
  list, has exactly one row for \<open>k\<close>. Its concentration is the accumulated mass over the
  batch weight. Its limit is, in this order: the category's percentage in the entry's limit
  table when there is one, also for an entry of type \<open>prohibited\<close>; else 0 for an entry of
  type \<open>prohibited\<close>; else 100 %.
\<close>

theorem checkCompliance_limit_order:
  assumes "tbw \<noteq> 0"
    and "k \<in> fst ` set (massByCas (foldl compliance_step compliance_init f))"
    and "lib k = Some entry"
  shows "length (filter (\<lambda>r. cr_cas r = k) (checkCompliance lib f tbw cat)) = 1
     \<and> (\<exists>!r. r \<in> set (checkCompliance lib f tbw cat) \<and> cr_cas r = k)
     \<and> (\<forall>r\<in>set (checkCompliance lib f tbw cat). cr_cas r = k \<longrightarrow>
          cr_concentration r = cas_mass (massByCas (foldl compliance_step compliance_init f)) k / tbw
          \<and> (\<forall>tbl v. ifra_limits entry = Some tbl \<and> tbl cat = Some v \<longrightarrow> cr_limit r = v / 100)
          \<and> ((\<forall>tbl. ifra_limits entry = Some tbl \<longrightarrow> tbl cat = None)
                \<and> ifra_type entry = ''prohibited'' \<longrightarrow> cr_limit r = 0)
          \<and> ((\<forall>tbl. ifra_limits entry = Some tbl \<longrightarrow> tbl cat = None)
                \<and> ifra_type entry \<noteq> ''prohibited'' \<longrightarrow> cr_limit r = 1))"
proof -
  let ?acc = "foldl compliance_step compliance_init f"
  let ?row = "\<lparr>cr_cas = k, cr_name = ifra_name entry,
       cr_totalMass = cas_mass (massByCas ?acc) k,
       cr_concentration = cas_mass (massByCas ?acc) k / tbw,
       cr_limit = limitPercent entry cat / 100,
       cr_isCompliant = (cas_mass (massByCas ?acc) k / tbw \<le> limitPercent entry cat / 100),
       cr_sources = (case map_of (sourcesByCas ?acc) k of None \<Rightarrow> [] | Some xs \<Rightarrow> xs),
       cr_reason = Some (if ifra_type entry = ''prohibited'' then ''Prohibited''
                         else ''Restriction'')\<rparr>"
  have "compliance_rows lib ?acc tbw cat k = [?row]"
    using compliance_rows_Some[of lib k entry ?acc tbw cat] assms(2,3) by simp
  then have 0: "length (filter (\<lambda>r. cr_cas r = k) (checkCompliance lib f tbw cat)) = 1"
    using rows_of_cas_list[OF assms(1,2), of lib cat] by simp
  have rows: "{r \<in> set (checkCompliance lib f tbw cat). cr_cas r = k} = {?row}"
    using assms by (rule the_row)
  have only: "r = ?row" if "r \<in> set (checkCompliance lib f tbw cat)" "cr_cas r = k" for r
    using rows that by blast
  have "?row \<in> {r \<in> set (checkCompliance lib f tbw cat). cr_cas r = k}"
    using rows by simp
  then have ex: "?row \<in> set (checkCompliance lib f tbw cat) \<and> cr_cas ?row = k" by simp
  have 1: "\<exists>!r. r \<in> set (checkCompliance lib f tbw cat) \<and> cr_cas r = k"
  proof (rule ex1I[of _ ?row])
    show "?row \<in> set (checkCompliance lib f tbw cat) \<and> cr_cas ?row = k" by (rule ex)
    show "r = ?row" if "r \<in> set (checkCompliance lib f tbw cat) \<and> cr_cas r = k" for r
      using that only by blast
  qed
  have 2: "\<forall>r\<in>set (checkCompliance lib f tbw cat). cr_cas r = k \<longrightarrow>
          cr_concentration r = cas_mass (massByCas ?acc) k / tbw
          \<and> (\<forall>tbl v. ifra_limits entry = Some tbl \<and> tbl cat = Some v \<longrightarrow> cr_limit r = v / 100)
          \<and> ((\<forall>tbl. ifra_limits entry = Some tbl \<longrightarrow> tbl cat = None)
                \<and> ifra_type entry = ''prohibited'' \<longrightarrow> cr_limit r = 0)
          \<and> ((\<forall>tbl. ifra_limits entry = Some tbl \<longrightarrow> tbl cat = None)
                \<and> ifra_type entry \<noteq> ''prohibited'' \<longrightarrow> cr_limit r = 1)"
  proof (intro ballI impI)
    fix r assume "r \<in> set (checkCompliance lib f tbw cat)" "cr_cas r = k"
    then have r: "r = ?row" by (rule only)
    have a: "cr_concentration r = cas_mass (massByCas ?acc) k / tbw" by (simp add: r)
    have l: "cr_limit r = limitPercent entry cat / 100" by (simp add: r)
    note L = limitPercent_cases[of entry cat]
    have c: "\<forall>tbl v. ifra_limits entry = Some tbl \<and> tbl cat = Some v \<longrightarrow> cr_limit r = v / 100"
      using L[THEN conjunct1] by (simp add: l)
    have d: "(\<forall>tbl. ifra_limits entry = Some tbl \<longrightarrow> tbl cat = None)
                \<and> ifra_type entry = ''prohibited'' \<longrightarrow> cr_limit r = 0"
      using L[THEN conjunct2, THEN conjunct1] by (simp add: l)
    have e: "(\<forall>tbl. ifra_limits entry = Some tbl \<longrightarrow> tbl cat = None)
                \<and> ifra_type entry \<noteq> ''prohibited'' \<longrightarrow> cr_limit r = 1"
      using L[THEN conjunct2, THEN conjunct2] by (simp add: l)
    from a c d e show "cr_concentration r = cas_mass (massByCas ?acc) k / tbw
          \<and> (\<forall>tbl v. ifra_limits entry = Some tbl \<and> tbl cat = Some v \<longrightarrow> cr_limit r = v / 100)
          \<and> ((\<forall>tbl. ifra_limits entry = Some tbl \<longrightarrow> tbl cat = None)
                \<and> ifra_type entry = ''prohibited'' \<longrightarrow> cr_limit r = 0)
          \<and> ((\<forall>tbl. ifra_limits entry = Some tbl \<longrightarrow> tbl cat = None)
                \<and> ifra_type entry \<noteq> ''prohibited'' \<longrightarrow> cr_limit r = 1)"
      by (intro conjI)
  qed
  from 0 1 2 show ?thesis by (intro conjI)
qed

text \<open>
  Instances, with a batch of 100 g that holds 1 g of methyl eugenol and 10 g of limonene:
  the prohibited entry with a limit of 5 % in category 4 gets the limit 0.05 there and the
  limit 0 in category 5, where its table is silent; the restricted entry without a table
  gets the limit 1; the report has two rows, one of them for methyl eugenol.
\<close>

theorem checkCompliance_limit_order_witness:
  "cr_cas (hd (checkCompliance example_library
      [blank_item\<lparr>item_cas := ''93-15-2'', item_weight := 1\<rparr>,
       blank_item\<lparr>item_cas := ''5989-27-5'', item_weight := 10\<rparr>] 100 ''4'')) = ''93-15-2''
   \<and> cr_limit (hd (checkCompliance example_library
      [blank_item\<lparr>item_cas := ''93-15-2'', item_weight := 1\<rparr>,
       blank_item\<lparr>item_cas := ''5989-27-5'', item_weight := 10\<rparr>] 100 ''4'')) = 5 / 100
   \<and> cr_cas (hd (checkCompliance example_library
      [blank_item\<lparr>item_cas := ''93-15-2'', item_weight := 1\<rparr>,
       blank_item\<lparr>item_cas := ''5989-27-5'', item_weight := 10\<rparr>] 100 ''5'')) = ''93-15-2''
   \<and> cr_limit (hd (checkCompliance example_library
      [blank_item\<lparr>item_cas := ''93-15-2'', item_weight := 1\<rparr>,
       blank_item\<lparr>item_cas := ''5989-27-5'', item_weight := 10\<rparr>] 100 ''5'')) = 0
   \<and> cr_cas (last (checkCompliance example_library
      [blank_item\<lparr>item_cas := ''93-15-2'', item_weight := 1\<rparr>,
       blank_item\<lparr>item_cas := ''5989-27-5'', item_weight := 10\<rparr>] 100 ''4'')) = ''5989-27-5''
   \<and> cr_limit (last (checkCompliance example_library
      [blank_item\<lparr>item_cas := ''93-15-2'', item_weight := 1\<rparr>,
       blank_item\<lparr>item_cas := ''5989-27-5'', item_weight := 10\<rparr>] 100 ''4'')) = 1
   \<and> length (filter (\<lambda>r. cr_cas r = ''93-15-2'') (checkCompliance example_library
      [blank_item\<lparr>item_cas := ''93-15-2'', item_weight := 1\<rparr>,
       blank_item\<lparr>item_cas := ''5989-27-5'', item_weight := 10\<rparr>] 100 ''4'')) = 1
   \<and> length (checkCompliance example_library
      [blank_item\<lparr>item_cas := ''93-15-2'', item_weight := 1\<rparr>,
       blank_item\<lparr>item_cas := ''5989-27-5'', item_weight := 10\<rparr>] 100 ''4'') = 2"
proof -
  let ?f = "[blank_item\<lparr>item_cas := ''93-15-2'', item_weight := 1\<rparr>,
       blank_item\<lparr>item_cas := ''5989-27-5'', item_weight := 10\<rparr>]"
  let ?tbl = "\<lambda>c. if c = ''4'' then Some (5::real) else None"
  let ?me = "\<lparr>ifra_name = ''Methyl Eugenol'', ifra_type = ''prohibited'', ifra_limits = Some ?tbl\<rparr>"
  let ?li = "\<lparr>ifra_name = ''Limonene'', ifra_type = ''restricted'', ifra_limits = None\<rparr>"
  have w: "(100::real) \<noteq> 0" by simp
  have tab: "massByCas (foldl compliance_step compliance_init ?f) = [(''93-15-2'', 1), (''5989-27-5'', 10)]"
    by code_simp
  have k1: "''93-15-2'' \<in> fst ` set (massByCas (foldl compliance_step compliance_init ?f))"
    and k2: "''5989-27-5'' \<in> fst ` set (massByCas (foldl compliance_step compliance_init ?f))"
    unfolding tab by simp_all
  have e1: "example_library ''93-15-2'' = Some ?me" and e2: "example_library ''5989-27-5'' = Some ?li"
    by (simp_all add: example_library_def)
  have c4: "map cr_cas (checkCompliance example_library ?f 100 ''4'') = [''93-15-2'', ''5989-27-5'']"
    by code_simp
  have c5: "map cr_cas (checkCompliance example_library ?f 100 ''5'') = [''93-15-2'', ''5989-27-5'']"
    by code_simp
  have h4: "hd (checkCompliance example_library ?f 100 ''4'') \<in> set (checkCompliance example_library ?f 100 ''4'')"
    and l4: "last (checkCompliance example_library ?f 100 ''4'') \<in> set (checkCompliance example_library ?f 100 ''4'')"
    and n4: "cr_cas (hd (checkCompliance example_library ?f 100 ''4'')) = ''93-15-2''"
    and m4: "cr_cas (last (checkCompliance example_library ?f 100 ''4'')) = ''5989-27-5''"
    using c4 by (cases "checkCompliance example_library ?f 100 ''4''"; force)+
  have h5: "hd (checkCompliance example_library ?f 100 ''5'') \<in> set (checkCompliance example_library ?f 100 ''5'')"
    and n5: "cr_cas (hd (checkCompliance example_library ?f 100 ''5'')) = ''93-15-2''"
    using c5 by (cases "checkCompliance example_library ?f 100 ''5''"; force)+
  note A = checkCompliance_limit_order[where lib = example_library and cat = "''4''", OF w k1 e1,
      THEN conjunct2, THEN conjunct2, THEN bspec, OF h4,
      THEN mp, OF n4]
  note B = checkCompliance_limit_order[where lib = example_library and cat = "''5''", OF w k1 e1,
      THEN conjunct2, THEN conjunct2, THEN bspec, OF h5,
      THEN mp, OF n5]
  note C = checkCompliance_limit_order[where lib = example_library and cat = "''4''", OF w k2 e2,
      THEN conjunct2, THEN conjunct2, THEN bspec, OF l4,
      THEN mp, OF m4]
  have 1: "cr_limit (hd (checkCompliance example_library ?f 100 ''4'')) = 5 / 100"
    using A[THEN conjunct2, THEN conjunct1, THEN spec, THEN spec, of ?tbl 5]
    by simp
  have 2: "cr_limit (hd (checkCompliance example_library ?f 100 ''5'')) = 0"
    using B[THEN conjunct2, THEN conjunct2, THEN conjunct1] by simp
  have 3: "cr_limit (last (checkCompliance example_library ?f 100 ''4'')) = 1"
    using C[THEN conjunct2, THEN conjunct2, THEN conjunct2] by simp
  have 4: "length (filter (\<lambda>r. cr_cas r = ''93-15-2'') (checkCompliance example_library ?f 100 ''4'')) = 1"
    using checkCompliance_limit_order[where lib = example_library and cat = "''4''", OF w k1 e1]
    by blast
  have 5: "length (checkCompliance example_library ?f 100 ''4'') = 2"
    using c4 by (metis length_map length_Cons list.size(3) One_nat_def Suc_1)
  show ?thesis using n4 1 n5 2 m4 3 4 5 by simp
qed

text \<open>
  Claim C1 as stated fails for an entry of type \<open>prohibited\<close> whose table has a number for
  the category: with 5 % for category 4 the limit is 0.05, not 0, and 1 g in a batch of 100 g
  is reported compliant.
\<close>

theorem prohibited_with_table_counterexample:
  "map_option ifra_type (example_library ''93-15-2'') = Some ''prohibited''
   \<and> checkCompliance example_library [blank_item\<lparr>item_cas := ''93-15-2'', item_weight := 1\<rparr>] 100 ''4''
      = [\<lparr>cr_cas = ''93-15-2'', cr_name = ''Methyl Eugenol'', cr_totalMass = 1,
           cr_concentration = 1 / 100, cr_limit = 5 / 100, cr_isCompliant = True,
           cr_sources = [''Item''], cr_reason = Some ''Prohibited''\<rparr>]"
proof -
  have 1: "checkCompliance example_library
        [blank_item\<lparr>item_cas := ''93-15-2'', item_weight := 1\<rparr>] 100 ''4''
      = [\<lparr>cr_cas = ''93-15-2'', cr_name = ''Methyl Eugenol'', cr_totalMass = 1,
           cr_concentration = 1 / 100, cr_limit = 5 / 100, cr_isCompliant = True,
           cr_sources = [''Item''], cr_reason = Some ''Prohibited''\<rparr>]"
    by code_simp
  show ?thesis
    unfolding 1 by (simp add: example_library_def)
qed

subsection \<open>Hidden constituents\<close>

lemma constituents_keys:
  "fst ` set (massByCas (foldl (constituent_step item rm) acc cs))
     = fst ` set (massByCas acc) \<union> nc_cas ` set cs"
proof (induction cs arbitrary: acc)
  case Nil
  then show ?case by simp
next
  case (Cons c cs)
  have "fst ` set (massByCas (constituent_step item rm acc c))
          = insert (nc_cas c) (fst ` set (massByCas acc))"
    by (simp add: constituent_step_def Let_def keys_add_mass)
  then show ?case using Cons.IH[of "constituent_step item rm acc c"] by auto
qed

lemma compliance_step_keys:
  "nc_cas ` set (item_constituents item) \<subseteq> fst ` set (massByCas (compliance_step acc item))"
  by (simp add: compliance_step_def Let_def ncs_step_constituents constituents_keys)

lemma trim_Mixture: "trim ''Mixture'' = ''Mixture''"
  by code_simp

lemma bergamot_profile:
  "find_first (\<lambda>n. ncs_id n = ''bergamot_oil'') NCS_DATA =
     Some \<lparr>ncs_id = ''bergamot_oil'', ncs_constituents = [
        constituent ''Limonene'' ''5989-27-5'' 0.40,
        constituent ''Linalool'' ''78-70-6'' 0.12,
        constituent ''Citral'' ''5392-40-5'' 0.007,
        constituent ''Berzapten'' ''484-20-8'' 0.002]\<rparr>"
  by (simp add: NCS_DATA_def)

lemma bergamot_constituents:
  "item_ingredientId item = Some ''bergamot_oil'' \<Longrightarrow>
   item_constituents item =
     [constituent ''Limonene'' ''5989-27-5'' 0.40, constituent ''Linalool'' ''78-70-6'' 0.12,
      constituent ''Citral'' ''5392-40-5'' 0.007, constituent ''Berzapten'' ''484-20-8'' 0.002]"
  by (simp add: item_constituents_def bergamot_profile)

lemma bergamot_mass:
  assumes "item_weight item = 1000" "item_dilution item = 1" "item_cas item = ''Mixture''"
    "item_ingredientId item = Some ''bergamot_oil''"
  shows "cas_mass (massByCas (foldl compliance_step compliance_init [item])) ''484-20-8'' = 2"
proof -
  have "cas_mass (massByCas compliance_init) ''484-20-8'' = 0"
    by (simp add: compliance_init_def cas_mass_def)
  then show ?thesis
    by (simp add: compliance_step_mass assms trim_Mixture bergamot_constituents constituent_def)
qed

lemma bergamot_key:
  assumes "item_ingredientId item = Some ''bergamot_oil''"
  shows "''484-20-8'' \<in> fst ` set (massByCas (foldl compliance_step compliance_init [item]))"
proof -
  have "''484-20-8'' \<in> nc_cas ` set (item_constituents item)"
    by (simp add: bergamot_constituents[OF assms] constituent_def)
  then show ?thesis using compliance_step_keys[of item compliance_init] by auto
qed

text \<open>
  Claim C2. One step of the accumulation adds, for every CAS number, the active mass of the
  item when the number is the item's own, trimmed, non-empty and not \<open>Mixture\<close>, plus the
  active mass times the fraction of every constituent of the linked profile with that
  number: both go into the same accumulator.

  For the formula of one item with weight 1000, dilution 1, CAS \<open>Mixture\<close> and ingredient
  \<open>bergamot_oil\<close>, the profile lists Berzapten, \<open>484-20-8\<close>, with the fraction 0.002, the
  total weight is 1000 g and the mass accumulated for that number is \<open>1000 * 0.002 = 2\<close>
  grams. When the library has an entry for the number the report has exactly one row for it,
  with mass 2 and concentration \<open>2 / 1000 = 0.002\<close>, and the row is compliant exactly when the
  applied limit is at least 0.2 %.
\<close>

theorem hidden_mass_additive:
  "(\<forall>k. cas_mass (massByCas (compliance_step acc item)) k =
        cas_mass (massByCas acc) k
        + (if trim (item_cas item) \<noteq> [] \<and> trim (item_cas item) \<noteq> ''Mixture''
              \<and> k = trim (item_cas item) then item_weight item * item_dilution item else 0)
        + (\<Sum>c\<leftarrow>item_constituents item.
             if nc_cas c = k then item_weight item * item_dilution item * nc_percent c else 0))
   \<and> (item_weight item = 1000 \<and> item_dilution item = 1 \<and> item_cas item = ''Mixture''
        \<and> item_ingredientId item = Some ''bergamot_oil'' \<longrightarrow>
       constituent ''Berzapten'' ''484-20-8'' 0.002 \<in> set (item_constituents item)
       \<and> totalWeight (calculateStats I [item]) = 1000
       \<and> cas_mass (massByCas (foldl compliance_step compliance_init [item])) ''484-20-8''
            = 1000 * 0.002
       \<and> (\<forall>entry. lib ''484-20-8'' = Some entry \<longrightarrow>
            (\<exists>!r. r \<in> set (checkCompliance lib [item] 1000 cat) \<and> cr_cas r = ''484-20-8'')
            \<and> (\<forall>r\<in>set (checkCompliance lib [item] 1000 cat). cr_cas r = ''484-20-8'' \<longrightarrow>
                  cr_totalMass r = 2 \<and> cr_concentration r = 2 / 1000
                  \<and> cr_limit r = limitPercent entry cat / 100
                  \<and> (cr_isCompliant r \<longleftrightarrow> 0.2 \<le> limitPercent entry cat))))"
proof -
  have step: "\<forall>k. cas_mass (massByCas (compliance_step acc item)) k =
        cas_mass (massByCas acc) k
        + (if trim (item_cas item) \<noteq> [] \<and> trim (item_cas item) \<noteq> ''Mixture''
              \<and> k = trim (item_cas item) then item_weight item * item_dilution item else 0)
        + (\<Sum>c\<leftarrow>item_constituents item.
             if nc_cas c = k then item_weight item * item_dilution item * nc_percent c else 0)"
    using compliance_step_mass by blast
  have example: "constituent ''Berzapten'' ''484-20-8'' 0.002 \<in> set (item_constituents item)
       \<and> totalWeight (calculateStats I [item]) = 1000
       \<and> cas_mass (massByCas (foldl compliance_step compliance_init [item])) ''484-20-8''
            = 1000 * 0.002
       \<and> (\<forall>entry. lib ''484-20-8'' = Some entry \<longrightarrow>
            (\<exists>!r. r \<in> set (checkCompliance lib [item] 1000 cat) \<and> cr_cas r = ''484-20-8'')
            \<and> (\<forall>r\<in>set (checkCompliance lib [item] 1000 cat). cr_cas r = ''484-20-8'' \<longrightarrow>
                  cr_totalMass r = 2 \<and> cr_concentration r = 2 / 1000
                  \<and> cr_limit r = limitPercent entry cat / 100
                  \<and> (cr_isCompliant r \<longleftrightarrow> 0.2 \<le> limitPercent entry cat)))"
    if h: "item_weight item = 1000 \<and> item_dilution item = 1 \<and> item_cas item = ''Mixture''
        \<and> item_ingredientId item = Some ''bergamot_oil''"
  proof -
    from h have h1: "item_weight item = 1000" and h2: "item_dilution item = 1"
      and h3: "item_cas item = ''Mixture''" and h4: "item_ingredientId item = Some ''bergamot_oil''"
      by simp_all
    let ?acc = "foldl compliance_step compliance_init [item]"
    have m: "cas_mass (massByCas ?acc) ''484-20-8'' = 2"
      using h1 h2 h3 h4 by (rule bergamot_mass)
    have key: "''484-20-8'' \<in> fst ` set (massByCas ?acc)"
      using h4 by (rule bergamot_key)
    have 1: "constituent ''Berzapten'' ''484-20-8'' 0.002 \<in> set (item_constituents item)"
      by (simp add: bergamot_constituents[OF h4])
    have 2: "totalWeight (calculateStats I [item]) = 1000"
      by (simp add: totalWeight_sum h1)
    have 3: "cas_mass (massByCas ?acc) ''484-20-8'' = 1000 * 0.002"
      using m by simp
    have 4: "(\<exists>!r. r \<in> set (checkCompliance lib [item] 1000 cat) \<and> cr_cas r = ''484-20-8'')
            \<and> (\<forall>r\<in>set (checkCompliance lib [item] 1000 cat). cr_cas r = ''484-20-8'' \<longrightarrow>
                  cr_totalMass r = 2 \<and> cr_concentration r = 2 / 1000
                  \<and> cr_limit r = limitPercent entry cat / 100
                  \<and> (cr_isCompliant r \<longleftrightarrow> 0.2 \<le> limitPercent entry cat))"
      if e: "lib ''484-20-8'' = Some entry" for entry
    proof -
      have w: "(1000::real) \<noteq> 0" by simp
      let ?row = "\<lparr>cr_cas = ''484-20-8'', cr_name = ifra_name entry,
         cr_totalMass = cas_mass (massByCas ?acc) ''484-20-8'',
         cr_concentration = cas_mass (massByCas ?acc) ''484-20-8'' / 1000,
         cr_limit = limitPercent entry cat / 100,
         cr_isCompliant = (cas_mass (massByCas ?acc) ''484-20-8'' / 1000
                             \<le> limitPercent entry cat / 100),
         cr_sources = (case map_of (sourcesByCas ?acc) ''484-20-8'' of
                         None \<Rightarrow> [] | Some xs \<Rightarrow> xs),
         cr_reason = Some (if ifra_type entry = ''prohibited'' then ''Prohibited''
                           else ''Restriction'')\<rparr>"
      have rows: "{r \<in> set (checkCompliance lib [item] 1000 cat). cr_cas r = ''484-20-8''} = {?row}"
        using w key e by (rule the_row)
      have only: "r = ?row" if "r \<in> set (checkCompliance lib [item] 1000 cat)"
        "cr_cas r = ''484-20-8''" for r
        using rows that by blast
      have "?row \<in> {r \<in> set (checkCompliance lib [item] 1000 cat). cr_cas r = ''484-20-8''}"
        using rows by simp
      then have ex: "?row \<in> set (checkCompliance lib [item] 1000 cat) \<and> cr_cas ?row = ''484-20-8''"
        by simp
      have u: "\<exists>!r. r \<in> set (checkCompliance lib [item] 1000 cat) \<and> cr_cas r = ''484-20-8''"
      proof (rule ex1I[of _ ?row])
        show "?row \<in> set (checkCompliance lib [item] 1000 cat) \<and> cr_cas ?row = ''484-20-8''"
          by (rule ex)
        show "r = ?row" if "r \<in> set (checkCompliance lib [item] 1000 cat) \<and> cr_cas r = ''484-20-8''"
          for r using that only by blast
      qed
      have v: "\<forall>r\<in>set (checkCompliance lib [item] 1000 cat). cr_cas r = ''484-20-8'' \<longrightarrow>
                  cr_totalMass r = 2 \<and> cr_concentration r = 2 / 1000
                  \<and> cr_limit r = limitPercent entry cat / 100
                  \<and> (cr_isCompliant r \<longleftrightarrow> 0.2 \<le> limitPercent entry cat)"
      proof (intro ballI impI)
        fix r assume "r \<in> set (checkCompliance lib [item] 1000 cat)" "cr_cas r = ''484-20-8''"
        then have r: "r = ?row" by (rule only)
        have a: "cr_totalMass r = 2" unfolding r using m by simp
        have b: "cr_concentration r = 2 / 1000" unfolding r using m by simp
        have c: "cr_limit r = limitPercent entry cat / 100" unfolding r by simp
        have "cr_isCompliant r \<longleftrightarrow> (2::real) / 1000 \<le> limitPercent entry cat / 100"
          unfolding r using m by simp
        then have d: "cr_isCompliant r \<longleftrightarrow> 0.2 \<le> limitPercent entry cat" by simp
        from a b c d show "cr_totalMass r = 2 \<and> cr_concentration r = 2 / 1000
                  \<and> cr_limit r = limitPercent entry cat / 100
                  \<and> (cr_isCompliant r \<longleftrightarrow> 0.2 \<le> limitPercent entry cat)"
          by (intro conjI)
      qed
      from u v show ?thesis by (rule conjI)
    qed
    from 1 2 3 4 show ?thesis by blast
  qed
  from step example show ?thesis by blast
qed

text \<open>
  An instance with the example library, whose limit for Bergapten in category 4 is 0.4 %:
  the last row of the report is the one for \<open>484-20-8\<close>, with 2 g, 0.002 and compliant.
\<close>

theorem hidden_mass_additive_witness:
  "cas_mass (massByCas (foldl compliance_step compliance_init
      [blank_item\<lparr>item_weight := 1000, item_cas := ''Mixture'',
                   item_ingredientId := Some ''bergamot_oil''\<rparr>])) ''484-20-8'' = 2
   \<and> cr_cas (last (checkCompliance example_library
      [blank_item\<lparr>item_weight := 1000, item_cas := ''Mixture'',
                   item_ingredientId := Some ''bergamot_oil''\<rparr>] 1000 ''4'')) = ''484-20-8''
   \<and> cr_totalMass (last (checkCompliance example_library
      [blank_item\<lparr>item_weight := 1000, item_cas := ''Mixture'',
                   item_ingredientId := Some ''bergamot_oil''\<rparr>] 1000 ''4'')) = 2
   \<and> cr_concentration (last (checkCompliance example_library
      [blank_item\<lparr>item_weight := 1000, item_cas := ''Mixture'',
                   item_ingredientId := Some ''bergamot_oil''\<rparr>] 1000 ''4'')) = 2 / 1000
   \<and> cr_limit (last (checkCompliance example_library
      [blank_item\<lparr>item_weight := 1000, item_cas := ''Mixture'',
                   item_ingredientId := Some ''bergamot_oil''\<rparr>] 1000 ''4'')) = 0.4 / 100
   \<and> cr_isCompliant (last (checkCompliance example_library
      [blank_item\<lparr>item_weight := 1000, item_cas := ''Mixture'',
                   item_ingredientId := Some ''bergamot_oil''\<rparr>] 1000 ''4''))"
proof -
  let ?it = "blank_item\<lparr>item_weight := 1000, item_cas := ''Mixture'',
                   item_ingredientId := Some ''bergamot_oil''\<rparr>"
  let ?tbl = "\<lambda>c. if c = ''4'' then Some (0.4::real) else None"
  let ?be = "\<lparr>ifra_name = ''Bergapten'', ifra_type = ''restricted'', ifra_limits = Some ?tbl\<rparr>"
  let ?rs = "checkCompliance example_library [?it] 1000 ''4''"
  have h: "item_weight ?it = 1000 \<and> item_dilution ?it = 1 \<and> item_cas ?it = ''Mixture''
        \<and> item_ingredientId ?it = Some ''bergamot_oil''"
    by (simp add: blank_item_def)
  have e: "example_library ''484-20-8'' = Some ?be"
    by (simp add: example_library_def)
  have lp: "limitPercent ?be ''4'' = 0.4"
    by (simp add: limitPercent_def)
  have cs: "map cr_cas ?rs = [''5989-27-5'', ''484-20-8'']"
    by code_simp
  have l: "last ?rs \<in> set ?rs" and n: "cr_cas (last ?rs) = ''484-20-8''"
    using cs by (cases ?rs; force)+
  note T = hidden_mass_additive[where item = ?it and lib = example_library and cat = "''4''"
      and I = "[]" and acc = compliance_init, THEN conjunct2, THEN mp, OF h]
  have m: "cas_mass (massByCas (foldl compliance_step compliance_init [?it])) ''484-20-8'' = 2"
    using T[THEN conjunct2, THEN conjunct2, THEN conjunct1] by simp
  note R = T[THEN conjunct2, THEN conjunct2, THEN conjunct2, THEN spec, THEN mp, OF e,
      THEN conjunct2, THEN bspec, OF l, THEN mp, OF n]
  have 1: "cr_totalMass (last ?rs) = 2" using R by blast
  have 2: "cr_concentration (last ?rs) = 2 / 1000" using R by blast
  have 3: "cr_limit (last ?rs) = 0.4 / 100" using R lp by simp
  have 4: "cr_isCompliant (last ?rs)" using R lp by simp
  show ?thesis using m n 1 2 3 4 by blast
qed

text \<open>An instance: a line of 10 g of limonene against a batch weight of 0.\<close>

theorem checkCompliance_zero_weight_witness:
  "checkCompliance example_library [blank_item\<lparr>item_cas := ''5989-27-5'', item_weight := 10\<rparr>] 0 ''4'' = []
   \<and> checkCompliance example_library [] (totalWeight (calculateStats example_ingredients [])) ''4'' = []"
  using checkCompliance_zero_weight[of example_library
      "[blank_item\<lparr>item_cas := ''5989-27-5'', item_weight := 10\<rparr>]" "''4''" example_ingredients]
    checkCompliance_zero_weight[of example_library "[]" "''4''" example_ingredients]
  by blast

end
